theory Spec2Isabelle
  imports Main "HOL-Library.Char_ord" "HOL-Library.List_Lexorder"
begin

section \<open>Strings and the Python string operations the program uses\<close>

text \<open>
  A Python \<^verbatim>\<open>str\<close> is represented by its UTF-8 encoding, a \<^typ>\<open>string\<close> of bytes; a
  \<^verbatim>\<open>bytes\<close> value is the \<^typ>\<open>string\<close> of its bytes. Concatenation, membership of an
  ASCII character, \<^verbatim>\<open>startswith\<close>, \<^verbatim>\<open>join\<close> and \<^verbatim>\<open>replace\<close> of a non-empty text act on
  the encoding as they act on the text. With \<open>Char_ord\<close> and \<open>List_Lexorder\<close> the order on
  strings is the lexicographic order on bytes, which on UTF-8 is the order on code points
  that Python's \<^verbatim>\<open>sorted\<close> uses on \<^verbatim>\<open>str\<close>. The length of a text is the number of its
  code points, that is, of the bytes that do not continue a sequence (\<open>py_len\<close>).
\<close>

definition NL :: string where
  "NL = [CHR 0x0A]"

definition TAB :: string where
  "TAB = [CHR 0x09]"

definition ESC :: string where
  "ESC = [CHR 0x1B]"

text \<open>\<^verbatim>\<open>"*" in f\<close>\<close>

definition has_star :: "string \<Rightarrow> bool" where
  "has_star f = (CHR ''*'' \<in> set f)"

text \<open>\<^verbatim>\<open>s.startswith(p)\<close>\<close>

definition startswith :: "string \<Rightarrow> string \<Rightarrow> bool" where
  "startswith s p = (take (length p) s = p)"

text \<open>A byte that continues a UTF-8 sequence (\<^verbatim>\<open>10xxxxxx\<close>), and \<^verbatim>\<open>len(s)\<close>.\<close>

definition is_continuation :: "char \<Rightarrow> bool" where
  "is_continuation c = (let n = (of_char c :: nat) in 128 \<le> n \<and> n < 192)"

definition py_len :: "string \<Rightarrow> nat" where
  "py_len s = length (filter (\<lambda>c. \<not> is_continuation c) s)"

text \<open>
  \<^verbatim>\<open>s.replace(old, new)\<close>: the non-overlapping occurrences of \<open>old\<close> are replaced from
  left to right. For an empty \<open>old\<close> Python puts \<open>new\<close> before every code point and at the
  end.
\<close>

function py_replace :: "string \<Rightarrow> string \<Rightarrow> string \<Rightarrow> string" where
  "py_replace old new [] = (if old = [] then new else [])"
| "py_replace old new (c # cs) =
     (if old = [] then (if is_continuation c then [] else new) @ c # py_replace old new cs
      else if startswith (c # cs) old
        then new @ py_replace old new (drop (length old) (c # cs))
        else c # py_replace old new cs)"
  by pat_completeness auto
termination
  by (relation "measure (\<lambda>(old, new, s). length s)") (auto simp: startswith_def)

text \<open>\<^verbatim>\<open>sep.join(xs)\<close>\<close>

fun py_join :: "string \<Rightarrow> string list \<Rightarrow> string" where
  "py_join sep [] = []"
| "py_join sep [x] = x"
| "py_join sep (x # y # ys) = x @ sep @ py_join sep (y # ys)"

text \<open>\<^verbatim>\<open>str(n)\<close> for an integer, and \<^verbatim>\<open>"{}".format(x)\<close> for a value that may be \<^verbatim>\<open>None\<close>.\<close>

definition digit_char :: "nat \<Rightarrow> char" where
  "digit_char d = char_of (48 + d)"

fun str_nat :: "nat \<Rightarrow> string" where
  "str_nat n = (if n < 10 then [digit_char n] else str_nat (n div 10) @ [digit_char (n mod 10)])"

definition str_int :: "int \<Rightarrow> string" where
  "str_int i = (if i < 0 then CHR ''-'' # str_nat (nat (- i)) else str_nat (nat i))"

definition format_number :: "int option \<Rightarrow> string" where
  "format_number n = (case n of None \<Rightarrow> ''None'' | Some i \<Rightarrow> str_int i)"

section \<open>Constants of \<^verbatim>\<open>utils.py\<close>\<close>

definition ERR_NOEXIST :: int where "ERR_NOEXIST = 201"
definition ERR_BADINTERF :: int where "ERR_BADINTERF = 204"
definition ERR_NOCOMPILE :: int where "ERR_NOCOMPILE = 202"
definition ERR_FAILTEST :: int where "ERR_FAILTEST = 203"

definition bcolors_HEADER :: string where "bcolors_HEADER = ESC @ ''[95m''"
definition bcolors_OKBLUE :: string where "bcolors_OKBLUE = ESC @ ''[94m''"
definition bcolors_OKGREEN :: string where "bcolors_OKGREEN = ESC @ ''[92m''"
definition bcolors_WARNING :: string where "bcolors_WARNING = ESC @ ''[33m''"
definition bcolors_FAIL :: string where "bcolors_FAIL = ESC @ ''[91m''"
definition bcolors_ENDC :: string where "bcolors_ENDC = ESC @ ''[0m''"
definition bcolors_BOLD :: string where "bcolors_BOLD = ESC @ ''[1m''"
definition bcolors_UNDERLINE :: string where "bcolors_UNDERLINE = ESC @ ''[4m''"

definition stripFormatting :: "string \<Rightarrow> string" where
  "stripFormatting s =
     (let contents = s;
          contents = py_replace bcolors_HEADER [] contents;
          contents = py_replace bcolors_OKBLUE [] contents;
          contents = py_replace bcolors_OKGREEN [] contents;
          contents = py_replace bcolors_WARNING [] contents;
          contents = py_replace bcolors_FAIL [] contents;
          contents = py_replace bcolors_ENDC [] contents;
          contents = py_replace bcolors_BOLD [] contents;
          contents = py_replace bcolors_UNDERLINE [] contents
      in contents)"

section \<open>Exceptions, the operating system and the external tools\<close>

text \<open>
  The exceptions that can leave the modelled functions: a missing dictionary key, a
  comparison of \<^verbatim>\<open>None\<close> with a number, \<^verbatim>\<open>pathlib\<close>'s complaint about an empty name,
  tool output that is not UTF-8, a user interrupt, and any other exception a subprocess
  call raises without having run the tool to completion (the executable is missing, for
  instance).
\<close>

datatype exn =
  KeyError string | TypeError | ValueError | UnicodeDecodeError | KeyboardInterrupt | OSError

text \<open>
  \<^verbatim>\<open>subprocess.check_output\<close> returns the output when the tool exits with status zero,
  raises \<^verbatim>\<open>CalledProcessError\<close> carrying the output otherwise, and lets any other
  exception through. The output is a \<^verbatim>\<open>bytes\<close> value, not yet decoded.
\<close>

datatype proc_result = Exit0 string | CalledProcessError string | Raised exn

text \<open>
  The state of the process and of the machine that the program reads and writes: the
  current working directory (as \<^verbatim>\<open>os.getcwd\<close> returns it), the directory tree, the files
  that exist, the temporary directories made by \<^verbatim>\<open>tempfile.mkdtemp\<close> that still exist, a
  counter that names the next one, the commands handed to \<^verbatim>\<open>subprocess.check_output\<close> so
  far, and the lines printed so far.

  The directory tree is the function \<open>realpath\<close>: for a directory and a path read in that
  directory it gives the one name under which the file the path leads to is known,
  whatever the spelling of the path (\<^verbatim>\<open>a.sv\<close>, \<^verbatim>\<open>./a.sv\<close>, \<^verbatim>\<open>sub/../a.sv\<close>, a symbolic
  link). The files that exist are kept under these names, with their content. The program
  never changes the tree itself, only files in it and temporary directories.
\<close>

record world =
  cwd :: string
  realpath :: "string \<Rightarrow> string \<Rightarrow> string"
  files :: "string \<Rightarrow> string option"
  tmpdirs :: "string list"
  tmp_next :: nat
  invoked :: "string list list"
  stdout :: "string list"

text \<open>
  What the library and the external tools answer while an operation runs. None of them
  is code of this repository, so each is a parameter: \<^verbatim>\<open>Path(f).with_suffix('')\<close> (which
  raises \<^verbatim>\<open>ValueError\<close> for a path with an empty name, here \<open>None\<close>), \<^verbatim>\<open>s.strip()\<close> (which
  removes the Unicode whitespace at both ends), \<^verbatim>\<open>b.decode('utf-8')\<close> (which raises
  \<^verbatim>\<open>UnicodeDecodeError\<close> for bytes that are not UTF-8, here \<open>None\<close>), the interface
  comparator of \<^verbatim>\<open>svinterface\<close> (a function of the current directory, the reference file,
  the candidate file and the module filter), and the compiler toolchain behind
  \<^verbatim>\<open>subprocess.check_output\<close> (a function of the current directory, the commands run
  before and the command). The answer of \<^verbatim>\<open>glob.glob\<close>, asked while the configuration is
  parsed, is the parameter \<open>g\<close> of \<open>checkWildcard\<close> and \<open>parseProblem\<close> below.
\<close>

record env =
  str_strip :: "string \<Rightarrow> string"
  decode_utf8 :: "string \<Rightarrow> string option"
  with_suffix_empty :: "string \<Rightarrow> string option"
  sv_checkInterface :: "string \<Rightarrow> string \<Rightarrow> string \<Rightarrow> string list option \<Rightarrow> string"
  check_output :: "string \<Rightarrow> string list list \<Rightarrow> string list \<Rightarrow> proc_result"

text \<open>\<^verbatim>\<open>os.path.isabs\<close> on POSIX.\<close>

definition os_path_isabs :: "string \<Rightarrow> bool" where
  "os_path_isabs p = (case p of [] \<Rightarrow> False | c # _ \<Rightarrow> c = CHR ''/'')"

text \<open>The file a path leads to, read in the current directory.\<close>

definition resolve_path :: "world \<Rightarrow> string \<Rightarrow> string" where
  "resolve_path w p = realpath w (cwd w) p"

definition os_path_exists :: "world \<Rightarrow> string \<Rightarrow> bool" where
  "os_path_exists w p = (files w (resolve_path w p) \<noteq> None)"

text \<open>
  \<^verbatim>\<open>os.chdir\<close>; the directories the program changes into are taken to exist. Afterwards
  \<^verbatim>\<open>os.getcwd\<close> returns the name of the directory the path leads to.
\<close>

definition os_chdir :: "string \<Rightarrow> world \<Rightarrow> world" where
  "os_chdir d w = w\<lparr>cwd := resolve_path w d\<rparr>"

definition os_remove :: "string \<Rightarrow> world \<Rightarrow> world" where
  "os_remove p w = w\<lparr>files := (files w)(resolve_path w p := None)\<rparr>"

text \<open>\<^verbatim>\<open>fd = open(p, "w"); fd.write(s); fd.close()\<close>\<close>

definition write_file :: "string \<Rightarrow> string \<Rightarrow> world \<Rightarrow> world" where
  "write_file p s w = w\<lparr>files := (files w)(resolve_path w p \<mapsto> s)\<rparr>"

definition tmp_path :: "nat \<Rightarrow> string" where
  "tmp_path n = ''/tmp/tmp'' @ str_nat n"

definition mkdtemp :: "world \<Rightarrow> string \<times> world" where
  "mkdtemp w =
     (let d = tmp_path (tmp_next w)
      in (d, w\<lparr>tmpdirs := d # tmpdirs w, tmp_next := Suc (tmp_next w)\<rparr>))"

definition rmtree :: "string \<Rightarrow> world \<Rightarrow> world" where
  "rmtree d w = w\<lparr>tmpdirs := removeAll d (tmpdirs w)\<rparr>"

definition print :: "string \<Rightarrow> world \<Rightarrow> world" where
  "print s w = w\<lparr>stdout := stdout w @ [s]\<rparr>"

text \<open>One call of \<^verbatim>\<open>sp.check_output(cmd, stderr=sp.STDOUT)\<close>: the command is logged.\<close>

definition sp_check_output :: "env \<Rightarrow> string list \<Rightarrow> world \<Rightarrow> proc_result \<times> world" where
  "sp_check_output e cmd w =
     (check_output e (cwd w) (invoked w) cmd, w\<lparr>invoked := invoked w @ [cmd]\<rparr>)"

section \<open>The class \<^verbatim>\<open>Operation\<close>\<close>

text \<open>An attribute that is \<^verbatim>\<open>None\<close> in Python is \<open>None\<close> here.\<close>

record operation =
  number :: "int option"
  existFiles :: "string list option"
  compileFiles :: "string list option"
  testFiles :: "string list option"
  specificModules :: "string list option"
  refFilePath :: "string option"
  hasErrors :: bool
  err :: string
  useWildcard :: bool
  skipCompile :: bool
  silent :: bool

text \<open>\<^verbatim>\<open>Operation.__init__(refFilePath, skipCompile, silent)\<close>\<close>

definition Operation :: "string option \<Rightarrow> bool \<Rightarrow> bool \<Rightarrow> operation" where
  "Operation r sc si =
     \<lparr>number = None, existFiles = None, compileFiles = None, testFiles = None,
      specificModules = None, refFilePath = r, hasErrors = False, err = [],
      useWildcard = False, skipCompile = sc, silent = si\<rparr>"

definition clearErrors :: "operation \<Rightarrow> operation" where
  "clearErrors opr = opr\<lparr>hasErrors := False, err := []\<rparr>"

subsection \<open>\<^verbatim>\<open>checkWildcard\<close>\<close>

text \<open>
  The two loops of \<^verbatim>\<open>checkWildcard\<close>. The first carries the flag \<^verbatim>\<open>useWildcard\<close> and the
  set \<^verbatim>\<open>tempExistFiles\<close>, the second the set \<^verbatim>\<open>tempCompileFiles\<close> only.
\<close>

fun wildcard_exist_loop ::
  "(string \<Rightarrow> string list) \<Rightarrow> string list \<Rightarrow> bool \<times> string set \<Rightarrow> bool \<times> string set" where
  "wildcard_exist_loop g [] s = s"
| "wildcard_exist_loop g (f # fs) (uw, tmp) =
     wildcard_exist_loop g fs
       (if has_star f then (True, tmp \<union> set (g f)) else (uw, insert f tmp))"

fun wildcard_compile_loop ::
  "(string \<Rightarrow> string list) \<Rightarrow> string list \<Rightarrow> string set \<Rightarrow> string set" where
  "wildcard_compile_loop g [] tmp = tmp"
| "wildcard_compile_loop g (f # fs) tmp =
     wildcard_compile_loop g fs (if has_star f then tmp \<union> set (g f) else insert f tmp)"

definition checkWildcard :: "(string \<Rightarrow> string list) \<Rightarrow> operation \<Rightarrow> operation" where
  "checkWildcard g opr =
     (let opr1 =
        (case existFiles opr of
           None \<Rightarrow> opr
         | Some fs \<Rightarrow>
             (case wildcard_exist_loop g fs (useWildcard opr, {}) of
                (uw, tmp) \<Rightarrow> opr\<lparr>useWildcard := uw, existFiles := Some (sorted_list_of_set tmp)\<rparr>))
      in (case compileFiles opr1 of
            None \<Rightarrow> opr1
          | Some fs \<Rightarrow>
              opr1\<lparr>compileFiles := Some (sorted_list_of_set (wildcard_compile_loop g fs {}))\<rparr>))"

subsection \<open>\<^verbatim>\<open>parseProblem\<close>\<close>

text \<open>
  One record of the configuration, as \<^verbatim>\<open>json.load\<close> returns it: a dictionary in which
  each of the five keys is absent, present with the value \<^verbatim>\<open>null\<close>, or present with a
  value of the type the configuration format gives it.
\<close>

datatype 'a field = Absent | Null | Val 'a

record raw_problem =
  p_number :: "int field"
  p_files :: "string list field"
  p_compileFiles :: "string list field"
  p_testFiles :: "string list field"
  p_specificModules :: "string list field"

text \<open>\<^verbatim>\<open>p[k]\<close>: a missing key raises \<^verbatim>\<open>KeyError\<close>.\<close>

definition getitem :: "'a field \<Rightarrow> string \<Rightarrow> exn + 'a option" where
  "getitem v k = (case v of Absent \<Rightarrow> Inl (KeyError k) | Null \<Rightarrow> Inr None | Val x \<Rightarrow> Inr (Some x))"

definition parseProblem ::
  "(string \<Rightarrow> string list) \<Rightarrow> raw_problem \<Rightarrow> operation \<Rightarrow> exn + operation" where
  "parseProblem g p opr =
     (case getitem (p_number p) ''number'' of
        Inl x \<Rightarrow> Inl x
      | Inr n \<Rightarrow>
     (let opr = (if n \<noteq> None then opr\<lparr>number := n\<rparr> else opr) in
      case getitem (p_files p) ''files'' of
        Inl x \<Rightarrow> Inl x
      | Inr fs \<Rightarrow>
     (let opr = (if fs \<noteq> None then opr\<lparr>existFiles := fs\<rparr> else opr) in
      case getitem (p_compileFiles p) ''compileFiles'' of
        Inl x \<Rightarrow> Inl x
      | Inr cs \<Rightarrow>
     (let opr = (if cs \<noteq> None then opr\<lparr>compileFiles := cs\<rparr> else opr) in
      case getitem (p_testFiles p) ''testFiles'' of
        Inl x \<Rightarrow> Inl x
      | Inr ts \<Rightarrow>
     (let opr = (if ts \<noteq> None then opr\<lparr>testFiles := ts\<rparr> else opr) in
      case getitem (p_specificModules p) ''specificModules'' of
        Inl x \<Rightarrow> Inl x
      | Inr ms \<Rightarrow>
     (let opr = (if ms \<noteq> None then opr\<lparr>specificModules := ms\<rparr> else opr) in
      Inr (checkWildcard g opr)))))))"

subsection \<open>Diagnostics\<close>

definition getOpError :: "string \<Rightarrow> int \<Rightarrow> string" where
  "getOpError mainFile errType =
     (let errMessage =
        (if errType = ERR_NOEXIST then ''file does not exist''
         else if errType = ERR_NOCOMPILE then ''failed to compile''
         else if errType = ERR_FAILTEST then ''failed TA testbench''
         else if errType = ERR_BADINTERF then ''incorrect interface''
         else ''unspecified error'')
      in mainFile @ '': '' @ bcolors_FAIL @ errMessage @ bcolors_ENDC)"

definition removeOldDir :: "string list \<Rightarrow> string \<Rightarrow> string" where
  "removeOldDir fileList oldDir = py_replace (oldDir @ ''/'') [] (py_join '', '' fileList)"

subsection \<open>\<^verbatim>\<open>checkExistence\<close>\<close>

text \<open>The loop over \<^verbatim>\<open>self.existFiles\<close>, carrying \<^verbatim>\<open>badFileMsg\<close>, the object and the world.\<close>

fun checkExistence_loop ::
  "string list \<Rightarrow> string \<times> operation \<times> world \<Rightarrow> string \<times> operation \<times> world" where
  "checkExistence_loop [] s = s"
| "checkExistence_loop (f # fs) (badFileMsg, opr, w) =
     checkExistence_loop fs
       (if \<not> os_path_exists w (''./'' @ f) then
          (let error = getOpError f ERR_NOEXIST @ NL
           in (badFileMsg @ error, opr\<lparr>hasErrors := True, err := err opr @ error\<rparr>, w))
        else if \<not> silent opr then
          (if useWildcard opr then (badFileMsg, opr, print (TAB @ f) w)
           else (badFileMsg, opr, print (f @ '': file exists, good'') w))
        else (badFileMsg, opr, w))"

definition checkExistence :: "env \<Rightarrow> operation \<Rightarrow> world \<Rightarrow> operation \<times> world" where
  "checkExistence e opr w =
     (let w = (if useWildcard opr \<and> \<not> silent opr
               then print ''Files that will be handed in:'' w else w);
          (badFileMsg, opr, w) =
            (case existFiles opr of
               None \<Rightarrow> ([], opr, w)
             | Some fs \<Rightarrow> checkExistence_loop fs ([], opr, w));
          w = (if \<not> silent opr then
                 (let w = (if useWildcard opr
                           then print (''If you do not wish to hand in these files, please '' @
                                       ''move them away from your current directory'') w
                           else w)
                  in if badFileMsg \<noteq> [] then print (str_strip e badFileMsg) w else w)
               else w)
      in (opr, w))"

subsection \<open>\<^verbatim>\<open>checkInterface\<close>\<close>

text \<open>\<^verbatim>\<open>"{}".format(x)\<close> for a string that may be \<^verbatim>\<open>None\<close>.\<close>

definition format_str :: "string option \<Rightarrow> string" where
  "format_str s = (case s of None \<Rightarrow> ''None'' | Some x \<Rightarrow> x)"

text \<open>
  The loop over \<^verbatim>\<open>self.existFiles\<close>, carrying \<^verbatim>\<open>toPrint\<close>, the object and the world. The
  body has a \<^verbatim>\<open>continue\<close> for a file without a reference and no \<^verbatim>\<open>break\<close>.
\<close>

fun checkInterface_loop ::
  "env \<Rightarrow> string list \<Rightarrow> string \<times> operation \<times> world \<Rightarrow> (exn + string) \<times> operation \<times> world" where
  "checkInterface_loop e [] (toPrint, opr, w) = (Inr toPrint, opr, w)"
| "checkInterface_loop e (f # fs) (toPrint, opr, w) =
     (case with_suffix_empty e f of
        None \<Rightarrow> (Inl ValueError, opr, w)
      | Some fNoExt \<Rightarrow>
          (let testFile = ''./'' @ f;
               refFile = format_str (refFilePath opr) @ ''/'' @ fNoExt @ ''_ref.sv''
           in if \<not> os_path_exists w refFile then checkInterface_loop e fs (toPrint, opr, w)
              else
                (let compareResult =
                       sv_checkInterface e (cwd w) refFile testFile (specificModules opr)
                 in if compareResult \<noteq> [] then
                      (let error = getOpError f ERR_BADINTERF @ NL
                       in checkInterface_loop e fs
                            (toPrint @ error,
                             opr\<lparr>hasErrors := True, err := err opr @ error @ compareResult @ NL\<rparr>,
                             w))
                    else
                      checkInterface_loop e fs
                        (toPrint @ f @ '': interface matches reference, good'', opr, w))))"

text \<open>\<^verbatim>\<open>self.number < 0\<close> raises \<^verbatim>\<open>TypeError\<close> when the number is \<^verbatim>\<open>None\<close>.\<close>

definition checkInterface :: "env \<Rightarrow> operation \<Rightarrow> world \<Rightarrow> (exn + unit) \<times> operation \<times> world" where
  "checkInterface e opr w =
     (case number opr of
        None \<Rightarrow> (Inl TypeError, opr, w)
      | Some n \<Rightarrow>
          if n < 0 then (Inr (), opr, w)
          else
            (case (case existFiles opr of
                     None \<Rightarrow> (Inr [], opr, w)
                   | Some fs \<Rightarrow> checkInterface_loop e fs ([], opr, w)) of
               (Inl x, opr', w') \<Rightarrow> (Inl x, opr', w')
             | (Inr toPrint, opr', w') \<Rightarrow>
                 (Inr (), opr',
                  if toPrint \<noteq> [] \<and> \<not> silent opr'
                  then print (str_strip e toPrint) w' else w')))"

subsection \<open>\<^verbatim>\<open>checkCompilation\<close>\<close>

text \<open>
  \<^verbatim>\<open>compilationErrHandler(fileList, oldDir, err)\<close>, with the output \<^verbatim>\<open>err.output\<close> for
  \<open>err\<close>. Decoding the output comes after the flag is set, the line is printed and the
  first part of the diagnostic is added; when it raises, the handler is left there.
\<close>

definition compilationErrHandler ::
  "env \<Rightarrow> string list \<Rightarrow> string \<Rightarrow> string \<Rightarrow> operation \<Rightarrow> world
     \<Rightarrow> (exn + unit) \<times> operation \<times> world" where
  "compilationErrHandler e fileList oldDir output opr w =
     (let opr = opr\<lparr>hasErrors := True\<rparr>;
          files = removeOldDir fileList oldDir;
          error = getOpError files ERR_NOCOMPILE @ NL;
          w = (if \<not> silent opr then print (str_strip e error) w else w);
          opr = opr\<lparr>err := err opr @ error\<rparr>
      in case decode_utf8 e output of
           None \<Rightarrow> (Inl UnicodeDecodeError, opr, w)
         | Some errOutput \<Rightarrow> (Inr (), opr\<lparr>err := err opr @ errOutput @ NL\<rparr>, w))"

definition vloganCmd :: "string list \<Rightarrow> string list" where
  "vloganCmd fileList = [''vlogan'', ''-q'', ''-sverilog'', ''-nc''] @ fileList"

definition vcsModuleCmd :: "string \<Rightarrow> string list" where
  "vcsModuleCmd m = [''vcs'', ''-q'', ''-sverilog'', ''-nc'', m]"

definition vcsCmd :: "string list \<Rightarrow> string list" where
  "vcsCmd fileList = [''vcs'', ''-q'', ''-sverilog'', ''-nc''] @ fileList"

text \<open>The loop \<^verbatim>\<open>for module in self.specificModules\<close>.\<close>

fun compile_modules_loop ::
  "env \<Rightarrow> string list \<Rightarrow> string \<Rightarrow> string list \<Rightarrow> operation \<times> world
     \<Rightarrow> (exn + unit) \<times> operation \<times> world" where
  "compile_modules_loop e fileList oldDir [] (opr, w) = (Inr (), opr, w)"
| "compile_modules_loop e fileList oldDir (m # ms) (opr, w) =
     (case sp_check_output e (vcsModuleCmd m) w of
        (Exit0 out, w') \<Rightarrow> compile_modules_loop e fileList oldDir ms (opr, w')
      | (CalledProcessError out, w') \<Rightarrow>
          (case compilationErrHandler e fileList oldDir out opr w' of
             (Inl x, opr', w'') \<Rightarrow> (Inl x, opr', w'')
           | (Inr u, opr', w'') \<Rightarrow> compile_modules_loop e fileList oldDir ms (opr', w''))
      | (Raised x, w') \<Rightarrow> (Inl x, opr, w'))"

text \<open>
  The body of the \<^verbatim>\<open>try\<close> statement. An exception of the handler is raised inside an
  \<^verbatim>\<open>except\<close> clause and leaves the body. The clause \<^verbatim>\<open>except (KeyboardInterrupt): raise\<close>
  raises the interrupt again, so every exception leaves the body as it is.
\<close>

definition compile_try ::
  "env \<Rightarrow> string list \<Rightarrow> string \<Rightarrow> operation \<Rightarrow> world \<Rightarrow> (exn + unit) \<times> operation \<times> world" where
  "compile_try e fileList oldDir opr w =
     (let good = (\<lambda>opr w. if \<not> silent opr \<and> \<not> hasErrors opr
                    then print (removeOldDir fileList oldDir @ '': file(s) compile, good'') w
                    else w)
      in case specificModules opr of
           Some ms \<Rightarrow>
             (case sp_check_output e (vloganCmd fileList) w of
                (Raised x, w') \<Rightarrow> (Inl x, opr, w')
              | (CalledProcessError out, w') \<Rightarrow>
                  (case compilationErrHandler e fileList oldDir out opr w' of
                     (Inl x, opr', w'') \<Rightarrow> (Inl x, opr', w'')
                   | (Inr u, opr', w'') \<Rightarrow> (Inr (), opr', w''))
              | (Exit0 out, w') \<Rightarrow>
                  (case compile_modules_loop e fileList oldDir ms (opr, w') of
                     (Inl x, opr', w'') \<Rightarrow> (Inl x, opr', w'')
                   | (Inr u, opr', w'') \<Rightarrow> (Inr (), opr', good opr' w'')))
         | None \<Rightarrow>
             (case sp_check_output e (vcsCmd fileList) w of
                (Raised x, w') \<Rightarrow> (Inl x, opr, w')
              | (CalledProcessError out, w') \<Rightarrow>
                  (case compilationErrHandler e fileList oldDir out opr w' of
                     (Inl x, opr', w'') \<Rightarrow> (Inl x, opr', w'')
                   | (Inr u, opr', w'') \<Rightarrow> (Inr (), opr', good opr' w''))
              | (Exit0 out, w') \<Rightarrow> (Inr (), opr, good opr w')))"

text \<open>
  \<^verbatim>\<open>checkCompilation\<close>: the file list, the temporary directory, the \<^verbatim>\<open>try\<close> body and the
  \<^verbatim>\<open>finally\<close> clause, which runs whatever the body did. Iterating over
  \<^verbatim>\<open>self.compileFiles\<close> raises \<^verbatim>\<open>TypeError\<close> when it is \<^verbatim>\<open>None\<close>.
\<close>

definition checkCompilation :: "env \<Rightarrow> operation \<Rightarrow> world \<Rightarrow> (exn + unit) \<times> operation \<times> world" where
  "checkCompilation e opr w =
     (let oldDir = cwd w
      in case compileFiles opr of
           None \<Rightarrow> (Inl TypeError, opr, w)
         | Some cfs \<Rightarrow>
             (let fileList =
                    map (\<lambda>fileName. if os_path_isabs fileName then fileName
                                     else oldDir @ ''/'' @ fileName) cfs;
                  (tempDir, w) = mkdtemp w;
                  w = os_chdir tempDir w;
                  (r, opr, w) = compile_try e fileList oldDir opr w;
                  w = os_chdir oldDir w;
                  w = rmtree tempDir w
              in (r, opr, w)))"

subsection \<open>\<^verbatim>\<open>do\<close>\<close>

definition do_from_compile :: "env \<Rightarrow> operation \<Rightarrow> world \<Rightarrow> (exn + string) \<times> operation \<times> world" where
  "do_from_compile e opr w =
     (if \<not> skipCompile opr \<and> compileFiles opr \<noteq> None then
        (case checkCompilation e opr w of
           (Inl x, opr', w') \<Rightarrow> (Inl x, opr', w')
         | (Inr u, opr', w') \<Rightarrow>
             if hasErrors opr' then (Inr (err opr' @ NL), opr', w') else (Inr [], opr', w'))
      else (Inr [], opr, w))"

definition do_from_interface :: "env \<Rightarrow> operation \<Rightarrow> world \<Rightarrow> (exn + string) \<times> operation \<times> world" where
  "do_from_interface e opr w =
     (if refFilePath opr \<noteq> None then
        (case checkInterface e opr w of
           (Inl x, opr', w') \<Rightarrow> (Inl x, opr', w')
         | (Inr u, opr', w') \<Rightarrow>
             if hasErrors opr' then (Inr (err opr' @ NL), opr', w')
             else do_from_compile e opr' w')
      else do_from_compile e opr w)"

definition do :: "env \<Rightarrow> operation \<Rightarrow> world \<Rightarrow> (exn + string) \<times> operation \<times> world" where
  "do e opr w =
     (if existFiles opr \<noteq> None then
        (case checkExistence e opr w of
           (opr', w') \<Rightarrow>
             if hasErrors opr' then (Inr (err opr' @ NL), opr', w')
             else do_from_interface e opr' w')
      else do_from_interface e opr w)"

section \<open>The functions around \<^verbatim>\<open>Operation\<close>\<close>

definition writeHeaderLine :: "string \<Rightarrow> bool \<Rightarrow> string" where
  "writeHeaderLine header filled =
     (let headerLen = (80 :: int);
          maxLen = headerLen - 2;
          header = '' '' @ header @ '' '';
          remaining = maxLen - int (py_len header);
          firstHalf = remaining div 2;
          secondHalf = remaining - firstHalf;
          filler = (if filled then CHR ''*'' else CHR '' '');
          headerLine = ''*'' @ replicate (nat firstHalf) filler @ header @
                       replicate (nat secondHalf) filler @ ''*'' @ NL
      in headerLine)"

text \<open>
  The loop of \<^verbatim>\<open>doOpArray\<close>. The objects of \<^verbatim>\<open>opArray\<close> are changed in place: \<open>seen\<close> holds
  the ones the loop is through with, as they are afterwards.
\<close>

fun doOpArray_loop ::
  "env \<Rightarrow> operation list \<Rightarrow> operation list \<Rightarrow> string set \<times> bool \<times> string \<Rightarrow> world
     \<Rightarrow> (exn + string set \<times> bool \<times> string) \<times> operation list \<times> world" where
  "doOpArray_loop e [] seen acc w = (Inr acc, seen, w)"
| "doOpArray_loop e (opr # rest) seen (filesToSubmit, hasErrs, errStringTotal) w =
     (let opr = clearErrors opr;
          filesToSubmit = (case existFiles opr of
                             None \<Rightarrow> filesToSubmit
                           | Some fs \<Rightarrow> filesToSubmit \<union> set fs);
          filesToSubmit = (case compileFiles opr of
                             None \<Rightarrow> filesToSubmit
                           | Some cs \<Rightarrow> filesToSubmit \<union> set cs)
      in case do e opr w of
           (Inl x, opr', w') \<Rightarrow> (Inl x, seen @ opr' # rest, w')
         | (Inr errString, opr', w') \<Rightarrow>
             doOpArray_loop e rest (seen @ [opr'])
               (if hasErrors opr'
                then (filesToSubmit, True,
                      errStringTotal @
                      writeHeaderLine (''Problem '' @ format_number (number opr')) True @
                      errString)
                else (filesToSubmit, hasErrs, errStringTotal))
               w')"

definition doOpArray ::
  "env \<Rightarrow> operation list \<Rightarrow> world
     \<Rightarrow> (exn + string set \<times> bool \<times> string) \<times> operation list \<times> world" where
  "doOpArray e opArray w = doOpArray_loop e opArray [] ({}, False, []) w"

definition getOutputHeader :: "string \<Rightarrow> string \<Rightarrow> string" where
  "getOutputHeader studentID hwNum =
     (let headerLine = replicate 80 (CHR ''*'') @ NL;
          outputHeader = headerLine;
          outputHeader = outputHeader @ writeHeaderLine (''18240: '' @ hwNum) False;
          outputHeader = outputHeader @ writeHeaderLine (''Error log for: '' @ studentID) False;
          outputHeader = outputHeader @ headerLine
      in outputHeader)"

definition createErrLog :: "string \<Rightarrow> string \<Rightarrow> world \<Rightarrow> world" where
  "createErrLog contents path w = write_file (path @ ''/errors.log'') (stripFormatting contents) w"

section \<open>\<^verbatim>\<open>checkStudent\<close> of \<^verbatim>\<open>admin.py\<close>\<close>

fun checkStudent_loop ::
  "env \<Rightarrow> operation list \<Rightarrow> operation list \<Rightarrow> bool \<times> string \<Rightarrow> world
     \<Rightarrow> (exn + bool \<times> string) \<times> operation list \<times> world" where
  "checkStudent_loop e [] seen acc w = (Inr acc, seen, w)"
| "checkStudent_loop e (opr # rest) seen (hasAnyErrors, personalOutput) w =
     (let opr = clearErrors opr
      in case do e opr w of
           (Inl x, opr', w') \<Rightarrow> (Inl x, seen @ opr' # rest, w')
         | (Inr errString, opr', w') \<Rightarrow>
             checkStudent_loop e rest (seen @ [opr'])
               (if hasErrors opr'
                then (True,
                      personalOutput @
                      writeHeaderLine (''Problem '' @ format_number (number opr')) True @
                      errString)
                else (hasAnyErrors, personalOutput))
               w')"

definition checkStudent ::
  "env \<Rightarrow> string \<Rightarrow> operation list \<Rightarrow> string \<Rightarrow> world
     \<Rightarrow> (exn + bool \<times> string) \<times> operation list \<times> world" where
  "checkStudent e studentDir opArray hwNum w =
     (let personalOutput = getOutputHeader studentDir hwNum;
          hasAnyErrors = False;
          oldDir = cwd w;
          w = os_chdir studentDir w;
          w = print (TAB @ ''Checking compile for '' @ studentDir) w
      in case checkStudent_loop e opArray [] (hasAnyErrors, personalOutput) w of
           (Inl x, ops, w) \<Rightarrow> (Inl x, ops, w)
         | (Inr (hasAnyErrors, personalOutput), ops, w) \<Rightarrow>
             (let w = (if hasAnyErrors then createErrLog personalOutput ''.'' w
                       else if os_path_exists w ''./errors.log''
                         then os_remove ''./errors.log'' w else w);
                  w = os_chdir oldDir w
              in (Inr (hasAnyErrors, personalOutput), ops, w)))"

section \<open>Notions used to state the properties\<close>

subsection \<open>Wildcard resolution\<close>

text \<open>
  What one list of entries resolves to: a literal entry stands for itself, an entry with
  the marker stands for the names \<^verbatim>\<open>glob.glob\<close> returns for it.
\<close>

fun resolved :: "(string \<Rightarrow> string list) \<Rightarrow> string list \<Rightarrow> string set" where
  "resolved g [] = {}"
| "resolved g (f # fs) = (if has_star f then set (g f) else {f}) \<union> resolved g fs"

text \<open>No name that \<^verbatim>\<open>glob.glob\<close> returns for a wildcard entry of the list holds the marker.\<close>

definition star_free_matches :: "(string \<Rightarrow> string list) \<Rightarrow> string list option \<Rightarrow> bool" where
  "star_free_matches g x =
     (case x of
        None \<Rightarrow> True
      | Some fs \<Rightarrow> \<forall>f\<in>set fs. has_star f \<longrightarrow> (\<forall>r\<in>set (g f). \<not> has_star r))"

text \<open>A file list that is unset, or sorted, free of duplicates and free of the marker.\<close>

definition resolved_list :: "string list option \<Rightarrow> bool" where
  "resolved_list x =
     (case x of
        None \<Rightarrow> True
      | Some fs \<Rightarrow> sorted fs \<and> distinct fs \<and> (\<forall>f\<in>set fs. \<not> has_star f))"

text \<open>
  A directory for the examples: \<^verbatim>\<open>glob.glob\<close> on a flat directory that holds the given
  names (none starting with a dot), for patterns made of literal characters, \<^verbatim>\<open>*\<close> and
  \<^verbatim>\<open>?\<close>.
\<close>

fun fnmatch :: "string \<Rightarrow> string \<Rightarrow> bool" where
  "fnmatch [] [] = True"
| "fnmatch [] (c # cs) = False"
| "fnmatch (p # ps) [] = (p = CHR ''*'' \<and> fnmatch ps [])"
| "fnmatch (p # ps) (c # cs) =
     (if p = CHR ''*'' then fnmatch ps (c # cs) \<or> fnmatch (p # ps) cs
      else (p = CHR ''?'' \<or> p = c) \<and> fnmatch ps cs)"

definition glob_in :: "string list \<Rightarrow> string \<Rightarrow> string list" where
  "glob_in names pat = filter (fnmatch pat) names"

subsection \<open>The existence check\<close>

text \<open>
  The entries of a list that do not exist in the current directory, the diagnostics for
  them, and the lines the check prints for the entries that do exist.
\<close>

definition missing_files :: "world \<Rightarrow> string list \<Rightarrow> string list" where
  "missing_files w fs = filter (\<lambda>f. \<not> os_path_exists w (''./'' @ f)) fs"

definition missing_diagnostics :: "world \<Rightarrow> string list \<Rightarrow> string" where
  "missing_diagnostics w fs = concat (map (\<lambda>f. getOpError f ERR_NOEXIST @ NL) (missing_files w fs))"

definition existence_lines :: "operation \<Rightarrow> world \<Rightarrow> string list \<Rightarrow> string list" where
  "existence_lines opr w fs =
     (if silent opr then []
      else map (\<lambda>f. if useWildcard opr then TAB @ f else f @ '': file exists, good'')
             (filter (\<lambda>f. os_path_exists w (''./'' @ f)) fs))"

text \<open>Everything \<open>checkExistence\<close> prints.\<close>

definition existence_output :: "env \<Rightarrow> operation \<Rightarrow> world \<Rightarrow> string list" where
  "existence_output e opr w =
     (let fs = (case existFiles opr of None \<Rightarrow> [] | Some fs \<Rightarrow> fs) in
      (if useWildcard opr \<and> \<not> silent opr then [''Files that will be handed in:''] else []) @
      existence_lines opr w fs @
      (if useWildcard opr \<and> \<not> silent opr
       then [''If you do not wish to hand in these files, please '' @
             ''move them away from your current directory'']
       else []) @
      (if \<not> silent opr \<and> missing_diagnostics w fs \<noteq> []
       then [str_strip e (missing_diagnostics w fs)] else []))"

subsection \<open>The interface check\<close>

text \<open>
  The reference file of an entry, whether it exists, what the comparator answers for the
  entry, the entries with a reference and a non-empty answer, the diagnostics for them,
  and the report on all entries with a reference.
\<close>

definition ref_file :: "operation \<Rightarrow> string \<Rightarrow> string" where
  "ref_file opr fNoExt = format_str (refFilePath opr) @ ''/'' @ fNoExt @ ''_ref.sv''"

definition has_reference :: "env \<Rightarrow> operation \<Rightarrow> world \<Rightarrow> string \<Rightarrow> bool" where
  "has_reference e opr w f =
     (case with_suffix_empty e f of
        None \<Rightarrow> False
      | Some fNoExt \<Rightarrow> os_path_exists w (ref_file opr fNoExt))"

definition compare_result :: "env \<Rightarrow> operation \<Rightarrow> world \<Rightarrow> string \<Rightarrow> string" where
  "compare_result e opr w f =
     (case with_suffix_empty e f of
        None \<Rightarrow> []
      | Some fNoExt \<Rightarrow>
          sv_checkInterface e (cwd w) (ref_file opr fNoExt) (''./'' @ f) (specificModules opr))"

definition mismatching :: "env \<Rightarrow> operation \<Rightarrow> world \<Rightarrow> string list \<Rightarrow> string list" where
  "mismatching e opr w fs =
     filter (\<lambda>f. has_reference e opr w f \<and> compare_result e opr w f \<noteq> []) fs"

definition interface_diagnostics :: "env \<Rightarrow> operation \<Rightarrow> world \<Rightarrow> string list \<Rightarrow> string" where
  "interface_diagnostics e opr w fs =
     concat (map (\<lambda>f. getOpError f ERR_BADINTERF @ NL @ compare_result e opr w f @ NL)
               (mismatching e opr w fs))"

definition interface_report :: "env \<Rightarrow> operation \<Rightarrow> world \<Rightarrow> string list \<Rightarrow> string" where
  "interface_report e opr w fs =
     concat (map (\<lambda>f. if compare_result e opr w f \<noteq> [] then getOpError f ERR_BADINTERF @ NL
                       else f @ '': interface matches reference, good'')
               (filter (has_reference e opr w) fs))"

text \<open>
  The entries of a list up to the first one whose name \<^verbatim>\<open>pathlib\<close> rejects: the ones the
  loop of the interface check gets through.
\<close>

definition accepted :: "env \<Rightarrow> string list \<Rightarrow> string list" where
  "accepted e fs = takeWhile (\<lambda>f. with_suffix_empty e f \<noteq> None) fs"

subsection \<open>The compilation check\<close>

text \<open>
  The list of files handed to the toolchain, the name of the directory that the next call
  of \<^verbatim>\<open>tempfile.mkdtemp\<close> makes, the directory in which the commands then run, and the
  diagnostic for one failed command: its first line, and after it the output when that
  can be decoded.
\<close>

definition compile_fileList :: "world \<Rightarrow> string list \<Rightarrow> string list" where
  "compile_fileList w cfs =
     map (\<lambda>fileName. if os_path_isabs fileName then fileName else cwd w @ ''/'' @ fileName) cfs"

definition temp_name :: "world \<Rightarrow> string" where
  "temp_name w = tmp_path (tmp_next w)"

definition build_dir :: "world \<Rightarrow> string" where
  "build_dir w = resolve_path w (temp_name w)"

definition compile_diagnostic_head :: "string list \<Rightarrow> string \<Rightarrow> string" where
  "compile_diagnostic_head fileList oldDir =
     getOpError (removeOldDir fileList oldDir) ERR_NOCOMPILE @ NL"

definition compile_diagnostic :: "env \<Rightarrow> string list \<Rightarrow> string \<Rightarrow> string \<Rightarrow> string" where
  "compile_diagnostic e fileList oldDir out =
     compile_diagnostic_head fileList oldDir @
     (case decode_utf8 e out of None \<Rightarrow> [] | Some errOutput \<Rightarrow> errOutput @ NL)"

text \<open>
  The exception an answer of the toolchain ends in, if any: the one the call raised, or
  \<^verbatim>\<open>UnicodeDecodeError\<close> for a failed command whose output cannot be decoded.
\<close>

definition raises :: "env \<Rightarrow> proc_result \<Rightarrow> exn option" where
  "raises e r =
     (case r of
        Exit0 out \<Rightarrow> None
      | CalledProcessError out \<Rightarrow>
          (case decode_utf8 e out of None \<Rightarrow> Some UnicodeDecodeError | Some t \<Rightarrow> None)
      | Raised x \<Rightarrow> Some x)"

text \<open>
  What the toolchain answers to the elaboration commands for a list of modules, run one
  after the other in directory \<open>d\<close> after the commands \<open>hist\<close>; the list ends with the
  first answer that ends in an exception.
\<close>

fun module_results :: "env \<Rightarrow> string \<Rightarrow> string list list \<Rightarrow> string list \<Rightarrow> proc_result list" where
  "module_results e d hist [] = []"
| "module_results e d hist (m # ms) =
     (if raises e (check_output e d hist (vcsModuleCmd m)) \<noteq> None
      then [check_output e d hist (vcsModuleCmd m)]
      else check_output e d hist (vcsModuleCmd m) #
           module_results e d (hist @ [vcsModuleCmd m]) ms)"

text \<open>
  What the toolchain answers to the commands of one compilation check, in whole-file
  mode (no modules) and in per-module mode, and the commands themselves.
\<close>

definition try_calls ::
  "env \<Rightarrow> string \<Rightarrow> string list list \<Rightarrow> string list \<Rightarrow> string list option \<Rightarrow> proc_result list" where
  "try_calls e d hist fileList mods =
     (case mods of
        None \<Rightarrow> [check_output e d hist (vcsCmd fileList)]
      | Some ms \<Rightarrow>
          (case check_output e d hist (vloganCmd fileList) of
             Exit0 out \<Rightarrow> Exit0 out # module_results e d (hist @ [vloganCmd fileList]) ms
           | r \<Rightarrow> [r]))"

definition try_cmds :: "string list \<Rightarrow> string list option \<Rightarrow> proc_result list \<Rightarrow> string list list" where
  "try_cmds fileList mods rs =
     (case mods of
        None \<Rightarrow> [vcsCmd fileList]
      | Some ms \<Rightarrow> vloganCmd fileList # map vcsModuleCmd (take (length rs - 1) ms))"

text \<open>
  The outputs of the failed commands among the answers, what a sequence of calls with
  these answers ends in (the first exception, or a normal end), the diagnostics it
  leaves in \<open>err\<close>, and the lines it prints.
\<close>

fun failed_outputs :: "proc_result list \<Rightarrow> string list" where
  "failed_outputs [] = []"
| "failed_outputs (CalledProcessError out # rs) = out # failed_outputs rs"
| "failed_outputs (r # rs) = failed_outputs rs"

fun outcome :: "env \<Rightarrow> proc_result list \<Rightarrow> exn + unit" where
  "outcome e [] = Inr ()"
| "outcome e (r # rs) = (case raises e r of Some x \<Rightarrow> Inl x | None \<Rightarrow> outcome e rs)"

definition compile_diagnostics :: "env \<Rightarrow> string list \<Rightarrow> string \<Rightarrow> proc_result list \<Rightarrow> string" where
  "compile_diagnostics e fileList oldDir rs =
     concat (map (compile_diagnostic e fileList oldDir) (failed_outputs rs))"

definition failure_lines ::
  "env \<Rightarrow> operation \<Rightarrow> string list \<Rightarrow> string \<Rightarrow> proc_result list \<Rightarrow> string list" where
  "failure_lines e opr fileList oldDir rs =
     (if silent opr then []
      else map (\<lambda>out. str_strip e (compile_diagnostic_head fileList oldDir)) (failed_outputs rs))"

definition good_line ::
  "env \<Rightarrow> operation \<Rightarrow> string list \<Rightarrow> string \<Rightarrow> proc_result list \<Rightarrow> string list" where
  "good_line e opr fileList oldDir rs =
     (if \<not> silent opr \<and> \<not> hasErrors opr \<and> failed_outputs rs = [] \<and> outcome e rs = Inr ()
      then [removeOldDir fileList oldDir @ '': file(s) compile, good''] else [])"

text \<open>
  A path that leads to the same directory from everywhere and is the name of that
  directory, as every path is that \<^verbatim>\<open>os.getcwd\<close> returns.
\<close>

definition canonical :: "world \<Rightarrow> string \<Rightarrow> bool" where
  "canonical w d = (\<forall>c. realpath w c d = d)"

subsection \<open>The contract of \<open>do\<close>\<close>

text \<open>
  The files the loop of the interface check goes through (none when the check is not
  configured or the number is negative), the exception the check ends in, if any, and
  the answers of the toolchain in the compilation check (none when it is skipped).
\<close>

definition interface_files :: "operation \<Rightarrow> string list" where
  "interface_files opr =
     (if refFilePath opr = None then []
      else case number opr of
             None \<Rightarrow> []
           | Some n \<Rightarrow> if n < 0 then [] else (case existFiles opr of None \<Rightarrow> [] | Some fs \<Rightarrow> fs))"

definition interface_exn :: "env \<Rightarrow> operation \<Rightarrow> exn option" where
  "interface_exn e opr =
     (if refFilePath opr = None then None
      else if number opr = None then Some TypeError
      else if \<exists>f\<in>set (interface_files opr). with_suffix_empty e f = None then Some ValueError
      else None)"

definition compile_calls :: "env \<Rightarrow> world \<Rightarrow> operation \<Rightarrow> proc_result list" where
  "compile_calls e w opr =
     (if skipCompile opr then []
      else case compileFiles opr of
             None \<Rightarrow> []
           | Some cfs \<Rightarrow>
               try_calls e (build_dir w) (invoked w) (compile_fileList w cfs) (specificModules opr))"

definition compile_text :: "env \<Rightarrow> world \<Rightarrow> operation \<Rightarrow> string" where
  "compile_text e w opr =
     (case compileFiles opr of
        None \<Rightarrow> []
      | Some cfs \<Rightarrow> compile_diagnostics e (compile_fileList w cfs) (cwd w) (compile_calls e w opr))"

text \<open>
  The three checks pass: every required file exists; the interface check meets no
  exception and finds no mismatch; every command of the toolchain exits with status zero.
\<close>

definition existence_passes :: "world \<Rightarrow> operation \<Rightarrow> bool" where
  "existence_passes w opr =
     (case existFiles opr of
        None \<Rightarrow> True
      | Some fs \<Rightarrow> \<forall>f\<in>set fs. os_path_exists w (''./'' @ f))"

definition interface_passes :: "env \<Rightarrow> world \<Rightarrow> operation \<Rightarrow> bool" where
  "interface_passes e w opr =
     (interface_exn e opr = None \<and> mismatching e opr w (interface_files opr) = [])"

definition compilation_passes :: "env \<Rightarrow> world \<Rightarrow> operation \<Rightarrow> bool" where
  "compilation_passes e w opr = (\<forall>r\<in>set (compile_calls e w opr). \<exists>out. r = Exit0 out)"

text \<open>
  What a run of \<open>do\<close> on a descriptor with cleared error state ends in, told from the
  checks: the diagnostics of the first check that fails, with a newline, or the
  exception that the interface check or the compilation check meets, or the empty text.
  The first two functions tell it for a run that has got as far as the compilation
  check and as far as the interface check.
\<close>

definition expected_from_compile :: "env \<Rightarrow> world \<Rightarrow> operation \<Rightarrow> exn + string" where
  "expected_from_compile e w opr =
     (case outcome e (compile_calls e w opr) of
        Inl x \<Rightarrow> Inl x
      | Inr u \<Rightarrow>
          if failed_outputs (compile_calls e w opr) \<noteq> []
          then Inr (compile_text e w opr @ NL)
          else Inr [])"

definition expected_from_interface :: "env \<Rightarrow> world \<Rightarrow> operation \<Rightarrow> exn + string" where
  "expected_from_interface e w opr =
     (case interface_exn e opr of
        Some x \<Rightarrow> Inl x
      | None \<Rightarrow>
          if mismatching e opr w (interface_files opr) \<noteq> []
          then Inr (interface_diagnostics e opr w (interface_files opr) @ NL)
          else expected_from_compile e w opr)"

definition expected :: "env \<Rightarrow> world \<Rightarrow> operation \<Rightarrow> exn + string" where
  "expected e w opr =
     (if \<not> existence_passes w opr
      then Inr (missing_diagnostics w (case existFiles opr of None \<Rightarrow> [] | Some fs \<Rightarrow> fs) @ NL)
      else expected_from_interface e w opr)"

text \<open>
  The runs of \<open>do\<close> on the descriptors of a list, each with the error state cleared and
  started in the world the run before left; the list ends with the first run that
  raises. Of such a list: the exception it ends in, the world it leaves, the objects of
  the array afterwards, and whether a run recorded an error.
\<close>

fun do_all ::
  "env \<Rightarrow> operation list \<Rightarrow> world \<Rightarrow> ((exn + string) \<times> operation \<times> world) list" where
  "do_all e [] w = []"
| "do_all e (opr # ops) w =
     (case do e (clearErrors opr) w of
        (Inl x, opr', w') \<Rightarrow> [(Inl x, opr', w')]
      | (Inr s, opr', w') \<Rightarrow> (Inr s, opr', w') # do_all e ops w')"

fun runs_exn :: "((exn + string) \<times> operation \<times> world) list \<Rightarrow> exn option" where
  "runs_exn [] = None"
| "runs_exn ((Inl x, opr, w) # runs) = Some x"
| "runs_exn ((Inr s, opr, w) # runs) = runs_exn runs"

fun runs_world :: "world \<Rightarrow> ((exn + string) \<times> operation \<times> world) list \<Rightarrow> world" where
  "runs_world w [] = w"
| "runs_world w ((r, opr, w') # runs) = runs_world w' runs"

text \<open>The worlds in which the runs of such a list started, the first one in \<open>w\<close>.\<close>

fun run_starts :: "world \<Rightarrow> ((exn + string) \<times> operation \<times> world) list \<Rightarrow> world list" where
  "run_starts w [] = []"
| "run_starts w ((r, opr, w') # runs) = w # run_starts w' runs"

definition runs_ops ::
  "operation list \<Rightarrow> ((exn + string) \<times> operation \<times> world) list \<Rightarrow> operation list" where
  "runs_ops ops runs = map (\<lambda>(r, opr, w). opr) runs @ drop (length runs) ops"

definition runs_failed :: "((exn + string) \<times> operation \<times> world) list \<Rightarrow> bool" where
  "runs_failed runs = (\<exists>(r, opr, w)\<in>set runs. hasErrors opr)"

text \<open>
  The block of one run in the error text: for a problem with an error the header line
  that names its number, and what \<open>do\<close> returned.
\<close>

definition run_block :: "(exn + string) \<times> operation \<times> world \<Rightarrow> string" where
  "run_block run =
     (case run of
        (Inl x, opr, w) \<Rightarrow> []
      | (Inr s, opr, w) \<Rightarrow>
          if hasErrors opr
          then writeHeaderLine (''Problem '' @ format_number (number opr)) True @ s
          else [])"

definition files_to_submit :: "operation list \<Rightarrow> string set" where
  "files_to_submit ops =
     (\<Union>opr\<in>set ops. (case existFiles opr of None \<Rightarrow> {} | Some fs \<Rightarrow> set fs) \<union>
                      (case compileFiles opr of None \<Rightarrow> {} | Some cs \<Rightarrow> set cs))"

subsection \<open>The error log of a student\<close>

text \<open>
  The world in which \<open>checkStudent\<close> runs the operations of a student, and the file
  \<^verbatim>\<open>errors.log\<close> in the directory of that student.
\<close>

definition student_world :: "string \<Rightarrow> world \<Rightarrow> world" where
  "student_world studentDir w =
     print (TAB @ ''Checking compile for '' @ studentDir) (os_chdir studentDir w)"

definition errors_log_path :: "world \<Rightarrow> string \<Rightarrow> string" where
  "errors_log_path w studentDir = resolve_path (os_chdir studentDir w) ''./errors.log''"

section \<open>Sample inputs\<close>

text \<open>A directory with three source files, and a descriptor with a wildcard entry.\<close>

definition sv_dir :: "string list" where
  "sv_dir = [''b.sv'', ''a.sv'', ''top.v'']"

definition sv_op :: operation where
  "sv_op = (Operation None False False)
     \<lparr>number := Some 1, existFiles := Some [''top.v'', ''*.sv''], compileFiles := Some [''*.sv'']\<rparr>"

text \<open>A directory with a file whose name holds the marker, and a descriptor that matches it.\<close>

definition star_dir :: "string list" where
  "star_dir = [''***c'', ''c'']"

definition star_op :: operation where
  "star_op = (Operation None False False)\<lparr>number := Some 1, existFiles := Some [''?*c'']\<rparr>"

text \<open>A record of the configuration without the key \<^verbatim>\<open>specificModules\<close>, and one with all keys.\<close>

definition short_record :: raw_problem where
  "short_record =
     \<lparr>p_number = Val 1, p_files = Val [''a.sv''], p_compileFiles = Val [''a.sv''],
      p_testFiles = Null, p_specificModules = Absent\<rparr>"

definition null_record :: raw_problem where
  "null_record =
     \<lparr>p_number = Val 3, p_files = Val [''a.sv''], p_compileFiles = Null,
      p_testFiles = Null, p_specificModules = Null\<rparr>"

text \<open>
  A directory tree for the examples, without symbolic links and with every directory
  that a path names: a relative path is joined to the directory, empty parts and \<^verbatim>\<open>.\<close>
  are dropped, and \<^verbatim>\<open>..\<close> leads to the parent.
\<close>

fun split_slash :: "string \<Rightarrow> string list" where
  "split_slash [] = [[]]"
| "split_slash (c # cs) =
     (if c = CHR ''/'' then [] # split_slash cs
      else (case split_slash cs of [] \<Rightarrow> [[c]] | x # xs \<Rightarrow> (c # x) # xs))"

fun norm_parts :: "string list \<Rightarrow> string list \<Rightarrow> string list" where
  "norm_parts acc [] = rev acc"
| "norm_parts acc (x # xs) =
     (if x = [] \<or> x = ''.'' then norm_parts acc xs
      else if x = ''..'' then norm_parts (tl acc) xs
      else norm_parts (x # acc) xs)"

definition norm_join :: "string \<Rightarrow> string \<Rightarrow> string" where
  "norm_join d p =
     (let parts = norm_parts [] (split_slash (if os_path_isabs p then p else d @ ''/'' @ p))
      in if parts = [] then ''/'' else concat (map (\<lambda>x. CHR ''/'' # x) parts))"

text \<open>
  The library for the examples. \<^verbatim>\<open>strip\<close> on ASCII text removes the characters with the
  codes 9 to 13 and 28 to 32 at both ends. \<^verbatim>\<open>decode('utf-8')\<close> accepts the well-formed
  sequences of one to four bytes (no overlong forms, no surrogates, nothing above
  U+10FFFF) and returns the text they encode.
\<close>

definition is_space :: "char \<Rightarrow> bool" where
  "is_space c = (let n = (of_char c :: nat) in (9 \<le> n \<and> n \<le> 13) \<or> (28 \<le> n \<and> n \<le> 32))"

definition ascii_strip :: "string \<Rightarrow> string" where
  "ascii_strip s = rev (dropWhile is_space (rev (dropWhile is_space s)))"

fun utf8_step :: "(nat \<times> nat \<times> nat) option \<Rightarrow> nat \<Rightarrow> (nat \<times> nat \<times> nat) option" where
  "utf8_step None b = None"
| "utf8_step (Some (0, lo, hi)) b =
     (if b < 128 then Some (0, 128, 191)
      else if 194 \<le> b \<and> b \<le> 223 then Some (1, 128, 191)
      else if b = 224 then Some (2, 160, 191)
      else if b = 237 then Some (2, 128, 159)
      else if 225 \<le> b \<and> b \<le> 239 then Some (2, 128, 191)
      else if b = 240 then Some (3, 144, 191)
      else if 241 \<le> b \<and> b \<le> 243 then Some (3, 128, 191)
      else if b = 244 then Some (3, 128, 143)
      else None)"
| "utf8_step (Some (Suc n, lo, hi)) b =
     (if lo \<le> b \<and> b \<le> hi then Some (n, 128, 191) else None)"

definition utf8_decode :: "string \<Rightarrow> string option" where
  "utf8_decode bs =
     (case fold (\<lambda>c st. utf8_step st (of_char c)) bs (Some (0, 128, 191)) of
        Some (0, lo, hi) \<Rightarrow> Some bs
      | _ \<Rightarrow> None)"

text \<open>
  An environment for the examples: file names lose what follows their last dot, the
  comparator finds fault with \<^verbatim>\<open>a.sv\<close> and \<^verbatim>\<open>c.sv\<close>, and the toolchain fails on every
  command.
\<close>

definition drop_last_suffix :: "string \<Rightarrow> string option" where
  "drop_last_suffix f =
     (if f = [] then None
      else if CHR ''.'' \<in> set f then Some (rev (drop 1 (dropWhile (\<lambda>c. c \<noteq> CHR ''.'') (rev f))))
      else Some f)"

definition iface_env :: env where
  "iface_env =
     \<lparr>str_strip = ascii_strip, decode_utf8 = utf8_decode,
      with_suffix_empty = drop_last_suffix,
      sv_checkInterface = (\<lambda>d r t ms. if t = ''./a.sv'' then ''port mismatch''
                                        else if t = ''./c.sv'' then ''missing module'' else []),
      check_output = (\<lambda>d h c. CalledProcessError ''syntax error'')\<rparr>"

text \<open>
  A student directory with \<^verbatim>\<open>a.sv\<close>, \<^verbatim>\<open>b.sv\<close>, \<^verbatim>\<open>c.sv\<close> and \<^verbatim>\<open>d.sv\<close>, references for the
  first three, and a descriptor that asks for all four.
\<close>

definition iface_world :: world where
  "iface_world =
     \<lparr>cwd = ''/home/s1'', realpath = norm_join,
      files = (\<lambda>p. if p \<in> set [''/home/s1/a.sv'', ''/home/s1/b.sv'', ''/home/s1/c.sv'',
                                  ''/home/s1/d.sv'', ''/refs/a_ref.sv'', ''/refs/b_ref.sv'',
                                  ''/refs/c_ref.sv'']
                     then Some [] else None),
      tmpdirs = [], tmp_next = 0, invoked = [], stdout = []\<rparr>"

definition iface_op :: operation where
  "iface_op = (Operation (Some ''/refs'') False False)
     \<lparr>number := Some 2, existFiles := Some [''a.sv'', ''b.sv'', ''c.sv'', ''d.sv''],
      compileFiles := Some [''a.sv'', ''b.sv'', ''c.sv'', ''d.sv'']\<rparr>"

text \<open>The same descriptor, silent and asking for \<^verbatim>\<open>d.sv\<close> and \<^verbatim>\<open>c.sv\<close> only.\<close>

definition iface_op2 :: operation where
  "iface_op2 = iface_op\<lparr>existFiles := Some [''d.sv'', ''c.sv''], silent := True\<rparr>"

text \<open>The same descriptor, silent and asking for a file with an empty name before \<^verbatim>\<open>a.sv\<close>.\<close>

definition iface_op3 :: operation where
  "iface_op3 = iface_op\<lparr>existFiles := Some [[], ''a.sv''], silent := True\<rparr>"

text \<open>The same descriptor as a lab problem, with a negative number.\<close>

definition lab_op :: operation where
  "lab_op = iface_op\<lparr>number := Some (- 1)\<rparr>"

text \<open>
  Scenario A of the specification: the descriptor asks for \<^verbatim>\<open>a.sv\<close> and the student
  directory is empty.
\<close>

definition scenario_a :: operation where
  "scenario_a = (Operation None False True)
     \<lparr>number := Some 1, existFiles := Some [''a.sv''], compileFiles := Some [''a.sv'']\<rparr>"

definition empty_home :: world where
  "empty_home =
     \<lparr>cwd = ''/home/s2'', realpath = norm_join, files = (\<lambda>p. None), tmpdirs = [],
      tmp_next = 0, invoked = [], stdout = []\<rparr>"

text \<open>
  Toolchains for the examples: one that succeeds on every command, one that is
  interrupted on every command, one on which the elaboration of the modules \<^verbatim>\<open>top\<close>
  and \<^verbatim>\<open>cpu\<close> fails, and one on which both fail as well, but \<^verbatim>\<open>top\<close> with the two
  bytes \<^verbatim>\<open>FF FE\<close> for output, which are not UTF-8.
\<close>

definition ok_env :: env where
  "ok_env = iface_env\<lparr>check_output := (\<lambda>d h c. Exit0 [])\<rparr>"

definition intr_env :: env where
  "intr_env = iface_env\<lparr>check_output := (\<lambda>d h c. Raised KeyboardInterrupt)\<rparr>"


definition garbled_env :: env where
  "garbled_env = iface_env\<lparr>check_output :=
     (\<lambda>d h c. if c = vcsModuleCmd ''top'' then CalledProcessError [CHR 0xFF, CHR 0xFE]
               else if c = vcsModuleCmd ''cpu'' then CalledProcessError ''cpu: unresolved''
               else Exit0 [])\<rparr>"

text \<open>
  A silent descriptor in per-module mode with three modules, Scenario C of the
  specification (one module), and a descriptor in whole-file mode.
\<close>

definition modules_op :: operation where
  "modules_op = (Operation None False True)
     \<lparr>number := Some 3, compileFiles := Some [''top.sv''],
      specificModules := Some [''top'', ''alu'', ''cpu'']\<rparr>"


definition whole_op :: operation where
  "whole_op = (Operation None False True)\<lparr>number := Some 4, compileFiles := Some [''top.sv'']\<rparr>"

text \<open>
  Scenario B of the specification: the descriptor asks for \<^verbatim>\<open>b.sv\<close> and \<^verbatim>\<open>c.sv\<close>, both
  are there and the toolchain succeeds.
\<close>

definition scenario_b :: operation where
  "scenario_b = (Operation None False True)
     \<lparr>number := Some 2, existFiles := Some [''b.sv'', ''c.sv''],
      compileFiles := Some [''b.sv'', ''c.sv'']\<rparr>"

text \<open>
  A descriptor with a reference path whose number is \<^verbatim>\<open>null\<close> in the configuration.
\<close>

definition unnumbered_op :: operation where
  "unnumbered_op = (Operation (Some ''/refs'') False True)\<lparr>existFiles := Some [''b.sv'']\<rparr>"

text \<open>
  A handin directory: student \<^verbatim>\<open>s1\<close> has handed in \<^verbatim>\<open>a.sv\<close>, \<^verbatim>\<open>b.sv\<close> and \<^verbatim>\<open>c.sv\<close> and
  still has an error log of an earlier run; student \<^verbatim>\<open>s2\<close> has handed in \<^verbatim>\<open>b.sv\<close> and
  \<^verbatim>\<open>c.sv\<close> only. The assignment has the two problems of Scenario B and Scenario A, in
  this order.
\<close>

definition handin_world :: world where
  "handin_world =
     \<lparr>cwd = ''/handin'', realpath = norm_join,
      files = (\<lambda>p. if p = ''/handin/s1/errors.log'' then Some ''stale''
                     else if p \<in> set [''/handin/s1/a.sv'', ''/handin/s1/b.sv'', ''/handin/s1/c.sv'',
                                       ''/handin/s2/b.sv'', ''/handin/s2/c.sv'']
                       then Some []
                     else None),
      tmpdirs = [], tmp_next = 0, invoked = [], stdout = []\<rparr>"

definition handin_ops :: "operation list" where
  "handin_ops = [scenario_b, scenario_a]"

section \<open>Wildcard resolution and parsing\<close>

lemma finite_resolved [simp]: "finite (resolved g fs)"
  by (induction fs) auto

lemma wildcard_exist_loop_eq:
  "wildcard_exist_loop g fs (uw, tmp) = (uw \<or> (\<exists>f\<in>set fs. has_star f), tmp \<union> resolved g fs)"
  by (induction fs arbitrary: uw tmp) auto

lemma wildcard_compile_loop_eq:
  "wildcard_compile_loop g fs tmp = tmp \<union> resolved g fs"
  by (induction fs arbitrary: tmp) auto

text \<open>\<open>checkWildcard\<close> in one equation: both lists are resolved, the flag can only be raised.\<close>

lemma checkWildcard_eq:
  "checkWildcard g opr =
     opr\<lparr>existFiles := map_option (\<lambda>fs. sorted_list_of_set (resolved g fs)) (existFiles opr),
         useWildcard := useWildcard opr \<or>
                        (\<exists>fs. existFiles opr = Some fs \<and> (\<exists>f\<in>set fs. has_star f)),
         compileFiles := map_option (\<lambda>fs. sorted_list_of_set (resolved g fs)) (compileFiles opr)\<rparr>"
  by (cases "existFiles opr"; cases "compileFiles opr")
     (simp_all add: checkWildcard_def wildcard_exist_loop_eq wildcard_compile_loop_eq)

lemma resolved_plain: "\<forall>f\<in>set fs. \<not> has_star f \<Longrightarrow> resolved g fs = set fs"
  by (induction fs) auto

lemma resolved_mem:
  "r \<in> resolved g fs \<longleftrightarrow> (\<exists>f\<in>set fs. if has_star f then r \<in> set (g f) else r = f)"
  by (induction fs) simp_all

lemma resolved_star_free:
  assumes "\<forall>f\<in>set fs. has_star f \<longrightarrow> (\<forall>r\<in>set (g f). \<not> has_star r)"
  shows "\<forall>r\<in>resolved g fs. \<not> has_star r"
proof
  fix r assume "r \<in> resolved g fs"
  then obtain f where f: "f \<in> set fs" "if has_star f then r \<in> set (g f) else r = f"
    by (auto simp: resolved_mem)
  show "\<not> has_star r"
  proof (cases "has_star f")
    case True
    with f assms show ?thesis by simp
  next
    case False
    with f show ?thesis by simp
  qed
qed

lemma resolved_twice:
  assumes "\<forall>f\<in>resolved g fs. \<not> has_star f"
  shows "sorted_list_of_set (resolved g (sorted_list_of_set (resolved g fs))) =
         sorted_list_of_set (resolved g fs)"
proof -
  have "\<forall>f\<in>set (sorted_list_of_set (resolved g fs)). \<not> has_star f"
    using assms by simp
  then have "resolved g (sorted_list_of_set (resolved g fs)) =
             set (sorted_list_of_set (resolved g fs))"
    by (rule resolved_plain)
  then show ?thesis by simp
qed

lemma star_free_resolved:
  assumes "star_free_matches g x" and "x = Some fs"
  shows "\<forall>r\<in>resolved g fs. \<not> has_star r"
proof -
  from assms have "\<forall>f\<in>set fs. has_star f \<longrightarrow> (\<forall>r\<in>set (g f). \<not> has_star r)"
    by (simp add: star_free_matches_def)
  then show ?thesis by (rule resolved_star_free)
qed

text \<open>For evaluation: the resolved list, computed on lists.\<close>

lemma resolved_code:
  "sorted_list_of_set (resolved g fs) =
     sort (remdups (concat (map (\<lambda>f. if has_star f then g f else [f]) fs)))"
proof -
  have "resolved g fs = set (concat (map (\<lambda>f. if has_star f then g f else [f]) fs))"
    by (induction fs) auto
  then show ?thesis by (simp only: sorted_list_of_set_sort_remdups)
qed

lemma checkWildcard_code:
  "checkWildcard g opr =
     opr\<lparr>existFiles :=
           map_option (\<lambda>fs. sort (remdups (concat (map (\<lambda>f. if has_star f then g f else [f]) fs))))
             (existFiles opr),
         useWildcard := useWildcard opr \<or>
                        (\<exists>fs. existFiles opr = Some fs \<and> (\<exists>f\<in>set fs. has_star f)),
         compileFiles :=
           map_option (\<lambda>fs. sort (remdups (concat (map (\<lambda>f. if has_star f then g f else [f]) fs))))
             (compileFiles opr)\<rparr>"
  by (simp only: checkWildcard_eq resolved_code)

lemma glob_sv_dir: "glob_in sv_dir ''*.sv'' = [''b.sv'', ''a.sv'']"
  by (simp add: glob_in_def sv_dir_def)

lemma glob_star_dir:
  "glob_in star_dir ''?*c'' = [''***c'']"
  "glob_in star_dir ''***c'' = [''***c'', ''c'']"
  by (simp_all add: glob_in_def star_dir_def)

text \<open>
  C5, as the specification states it: wildcard resolution is idempotent for every
  descriptor, and a second run on the resolved descriptor yields the same sorted,
  deduplicated, wildcard-free lists. The code does not do that when a file name itself
  holds the marker. In a directory that holds the two files \<^verbatim>\<open>***c\<close> and \<^verbatim>\<open>c\<close>, the entry
  \<^verbatim>\<open>?*c\<close> resolves to the list with the one name \<^verbatim>\<open>***c\<close>, which is not free of the
  marker; the second run takes that name for a pattern and the list grows by \<^verbatim>\<open>c\<close>.
\<close>

theorem checkWildcard_not_idempotent:
  "existFiles (checkWildcard (glob_in star_dir) star_op) = Some [''***c''] \<and>
   existFiles (checkWildcard (glob_in star_dir) (checkWildcard (glob_in star_dir) star_op)) =
     Some [''***c'', ''c''] \<and>
   checkWildcard (glob_in star_dir) (checkWildcard (glob_in star_dir) star_op) \<noteq>
     checkWildcard (glob_in star_dir) star_op"
proof -
  have a: "existFiles (checkWildcard (glob_in star_dir) star_op) = Some [''***c'']"
    by (simp add: checkWildcard_code star_op_def Operation_def has_star_def glob_star_dir)
  have b: "existFiles (checkWildcard (glob_in star_dir) (checkWildcard (glob_in star_dir) star_op)) =
           Some [''***c'', ''c'']"
    by (simp add: checkWildcard_code star_op_def Operation_def has_star_def glob_star_dir)
  from a b show ?thesis by auto
qed

text \<open>
  C5, amended: for every descriptor for which no name that \<^verbatim>\<open>glob.glob\<close> returns for a
  wildcard entry holds the marker, running \<open>checkWildcard\<close> a second time on the resolved
  descriptor changes nothing, and the resolved lists are sorted, free of duplicates and
  free of the marker.
\<close>

theorem checkWildcard_idempotent:
  assumes "star_free_matches g (existFiles opr)"
      and "star_free_matches g (compileFiles opr)"
  shows "checkWildcard g (checkWildcard g opr) = checkWildcard g opr \<and>
         resolved_list (existFiles (checkWildcard g opr)) \<and>
         resolved_list (compileFiles (checkWildcard g opr))"
proof -
  have e: "\<forall>fs. existFiles opr = Some fs \<longrightarrow> (\<forall>r\<in>resolved g fs. \<not> has_star r)"
    using assms(1) star_free_resolved by blast
  have c: "\<forall>fs. compileFiles opr = Some fs \<longrightarrow> (\<forall>r\<in>resolved g fs. \<not> has_star r)"
    using assms(2) star_free_resolved by blast
  have "checkWildcard g (checkWildcard g opr) = checkWildcard g opr"
    using e c
    by (cases "existFiles opr"; cases "compileFiles opr")
       (simp_all add: checkWildcard_eq resolved_twice)
  moreover have "resolved_list (existFiles (checkWildcard g opr))"
    using e by (cases "existFiles opr") (simp_all add: checkWildcard_eq resolved_list_def)
  moreover have "resolved_list (compileFiles (checkWildcard g opr))"
    using c by (cases "compileFiles opr") (simp_all add: checkWildcard_eq resolved_list_def)
  ultimately show ?thesis by simp
qed

theorem checkWildcard_idempotent_witness:
  "star_free_matches (glob_in sv_dir) (existFiles sv_op) \<and>
   star_free_matches (glob_in sv_dir) (compileFiles sv_op) \<and>
   existFiles (checkWildcard (glob_in sv_dir) sv_op) = Some [''a.sv'', ''b.sv'', ''top.v''] \<and>
   compileFiles (checkWildcard (glob_in sv_dir) sv_op) = Some [''a.sv'', ''b.sv''] \<and>
   checkWildcard (glob_in sv_dir) (checkWildcard (glob_in sv_dir) sv_op) =
     checkWildcard (glob_in sv_dir) sv_op"
proof -
  have e: "star_free_matches (glob_in sv_dir) (existFiles sv_op)"
    by (simp add: star_free_matches_def sv_op_def has_star_def glob_sv_dir)
  have c: "star_free_matches (glob_in sv_dir) (compileFiles sv_op)"
    by (simp add: star_free_matches_def sv_op_def has_star_def glob_sv_dir)
  have x: "existFiles (checkWildcard (glob_in sv_dir) sv_op) = Some [''a.sv'', ''b.sv'', ''top.v'']"
    by (simp add: checkWildcard_code sv_op_def has_star_def glob_sv_dir)
  have y: "compileFiles (checkWildcard (glob_in sv_dir) sv_op) = Some [''a.sv'', ''b.sv'']"
    by (simp add: checkWildcard_code sv_op_def has_star_def glob_sv_dir)
  from e c x y checkWildcard_idempotent [OF e c] show ?thesis by simp
qed

text \<open>
  C6: after \<open>checkWildcard\<close> has run on a descriptor as the program builds it (the
  object \<^verbatim>\<open>__init__\<close> makes, with any values in the fields \<open>parseProblem\<close> assigns),
  \<open>useWildcard\<close> is true if and only if some entry of \<open>existFiles\<close> held the marker.
  In general the flag is raised by such an entry and never lowered, and the entries of
  \<open>compileFiles\<close> have no influence on it.
\<close>

theorem useWildcard_from_existFiles_only:
  "(useWildcard (checkWildcard g
       ((Operation r sc si)\<lparr>number := n, existFiles := ex, compileFiles := cs, testFiles := ts,
                             specificModules := ms\<rparr>)) \<longleftrightarrow>
      (\<exists>fs. ex = Some fs \<and> (\<exists>f\<in>set fs. has_star f))) \<and>
   (\<not> useWildcard opr \<longrightarrow>
      (useWildcard (checkWildcard g opr) \<longleftrightarrow>
         (\<exists>fs. existFiles opr = Some fs \<and> (\<exists>f\<in>set fs. has_star f)))) \<and>
   (useWildcard opr \<longrightarrow> useWildcard (checkWildcard g opr)) \<and>
   useWildcard (checkWildcard g (opr\<lparr>compileFiles := cs'\<rparr>)) = useWildcard (checkWildcard g opr)"
  by (simp add: checkWildcard_eq Operation_def)

theorem useWildcard_from_existFiles_only_witness:
  "\<not> useWildcard (Operation None False False) \<and>
   \<not> useWildcard (checkWildcard (glob_in sv_dir)
        ((Operation None False False)\<lparr>existFiles := Some [''top.v''], compileFiles := Some [''*.sv'']\<rparr>)) \<and>
   useWildcard (checkWildcard (glob_in sv_dir)
        ((Operation None False False)\<lparr>existFiles := Some [''*.sv''], compileFiles := Some [''top.v'']\<rparr>))"
  using useWildcard_from_existFiles_only
          [where g = "glob_in sv_dir" and cs' = "Some [''*.sv'']"
             and opr = "(Operation None False False)\<lparr>existFiles := Some [''top.v'']\<rparr>"]
        useWildcard_from_existFiles_only
          [where g = "glob_in sv_dir" and cs' = "Some [''top.v'']"
             and opr = "(Operation None False False)\<lparr>existFiles := Some [''*.sv'']\<rparr>"]
  by (simp add: Operation_def has_star_def)

text \<open>
  C3, as the specification states it: a field that is absent or null does not raise an
  error. The code reads every key with \<^verbatim>\<open>p[key]\<close>, so a record without the key
  \<^verbatim>\<open>specificModules\<close> raises \<^verbatim>\<open>KeyError\<close>.
\<close>

theorem parseProblem_absent_key_raises:
  "parseProblem (glob_in sv_dir) short_record (Operation None False False) =
     Inl (KeyError ''specificModules'')"
  by (simp add: parseProblem_def getitem_def short_record_def)

text \<open>
  C3, amended: for every raw problem record that holds all five keys, parsing into a new
  \<open>Operation\<close> raises no error, and a field among number, files, compileFiles, testFiles,
  specificModules whose value is null leaves the corresponding descriptor field unset.
\<close>

theorem parseProblem_null_fields:
  assumes "p_number p \<noteq> Absent" and "p_files p \<noteq> Absent" and "p_compileFiles p \<noteq> Absent"
      and "p_testFiles p \<noteq> Absent" and "p_specificModules p \<noteq> Absent"
  shows "\<exists>opr'. parseProblem g p (Operation r sc si) = Inr opr' \<and>
     (p_number p = Null \<longrightarrow> number opr' = None) \<and>
     (p_files p = Null \<longrightarrow> existFiles opr' = None) \<and>
     (p_compileFiles p = Null \<longrightarrow> compileFiles opr' = None) \<and>
     (p_testFiles p = Null \<longrightarrow> testFiles opr' = None) \<and>
     (p_specificModules p = Null \<longrightarrow> specificModules opr' = None)"
  using assms
  by (cases "p_number p"; cases "p_files p"; cases "p_compileFiles p"; cases "p_testFiles p";
      cases "p_specificModules p")
     (simp_all add: parseProblem_def getitem_def Operation_def checkWildcard_eq)

theorem parseProblem_null_fields_witness:
  "\<exists>opr'. parseProblem (glob_in sv_dir) null_record (Operation None False False) = Inr opr' \<and>
     number opr' = Some 3 \<and> existFiles opr' = Some [''a.sv''] \<and> compileFiles opr' = None \<and>
     testFiles opr' = None \<and> specificModules opr' = None"
proof -
  obtain opr' where p: "parseProblem (glob_in sv_dir) null_record (Operation None False False) = Inr opr'"
    and n: "p_compileFiles null_record = Null \<longrightarrow> compileFiles opr' = None"
           "p_testFiles null_record = Null \<longrightarrow> testFiles opr' = None"
           "p_specificModules null_record = Null \<longrightarrow> specificModules opr' = None"
    using parseProblem_null_fields [of null_record "glob_in sv_dir" None False False]
    by (auto simp: null_record_def)
  from p have "opr' = checkWildcard (glob_in sv_dir)
      ((Operation None False False)\<lparr>number := Some 3, existFiles := Some [''a.sv'']\<rparr>)"
    by (simp add: parseProblem_def getitem_def null_record_def)
  then have "number opr' = Some 3" "existFiles opr' = Some [''a.sv'']"
    by (simp_all add: checkWildcard_code Operation_def has_star_def)
  with p n show ?thesis by (simp add: null_record_def)
qed

section \<open>The existence check\<close>

lemma os_path_exists_stdout [simp]: "os_path_exists (w\<lparr>stdout := s\<rparr>) p = os_path_exists w p"
  by (simp add: os_path_exists_def resolve_path_def)

lemma missing_files_stdout [simp]: "missing_files (w\<lparr>stdout := s\<rparr>) fs = missing_files w fs"
  by (simp add: missing_files_def)

lemma missing_diagnostics_stdout [simp]:
  "missing_diagnostics (w\<lparr>stdout := s\<rparr>) fs = missing_diagnostics w fs"
  by (simp add: missing_diagnostics_def)

lemma existence_lines_frame [simp]:
  "existence_lines opr (w\<lparr>stdout := s\<rparr>) fs = existence_lines opr w fs"
  "existence_lines (opr\<lparr>hasErrors := h, err := x\<rparr>) w fs = existence_lines opr w fs"
  by (simp_all add: existence_lines_def)

lemma missing_Cons:
  "missing_files w (f # fs) = (if os_path_exists w (''./'' @ f) then missing_files w fs else f # missing_files w fs)"
  "missing_diagnostics w (f # fs) =
     (if os_path_exists w (''./'' @ f) then missing_diagnostics w fs
      else getOpError f ERR_NOEXIST @ NL @ missing_diagnostics w fs)"
  by (simp_all add: missing_files_def missing_diagnostics_def)

lemma existence_lines_Cons:
  "existence_lines opr w (f # fs) =
     (if silent opr \<or> \<not> os_path_exists w (''./'' @ f) then existence_lines opr w fs
      else (if useWildcard opr then TAB @ f else f @ '': file exists, good'') # existence_lines opr w fs)"
  by (simp add: existence_lines_def)

lemma checkExistence_loop_eq:
  "checkExistence_loop fs (bad, opr, w) =
     (bad @ missing_diagnostics w fs,
      opr\<lparr>hasErrors := hasErrors opr \<or> missing_files w fs \<noteq> [],
          err := err opr @ missing_diagnostics w fs\<rparr>,
      w\<lparr>stdout := stdout w @ existence_lines opr w fs\<rparr>)"
proof (induction fs arbitrary: bad opr w)
  case Nil
  then show ?case by (simp add: missing_files_def missing_diagnostics_def existence_lines_def)
next
  case (Cons f fs)
  show ?case
    by (simp add: Cons.IH missing_Cons existence_lines_Cons print_def Let_def)
qed

lemma missing_diagnostics_Nil [simp]: "missing_diagnostics w [] = []" "missing_files w [] = []"
  by (simp_all add: missing_diagnostics_def missing_files_def)

lemma existence_lines_Nil [simp]: "existence_lines opr w [] = []"
  by (simp add: existence_lines_def)

lemma checkExistence_eq:
  "checkExistence e opr w =
     (let fs = (case existFiles opr of None \<Rightarrow> [] | Some fs \<Rightarrow> fs) in
      (opr\<lparr>hasErrors := hasErrors opr \<or> missing_files w fs \<noteq> [],
           err := err opr @ missing_diagnostics w fs\<rparr>,
       w\<lparr>stdout := stdout w @ existence_output e opr w\<rparr>))"
  by (cases "existFiles opr")
     (simp_all add: checkExistence_def checkExistence_loop_eq existence_output_def print_def Let_def)

lemma missing_diagnostics_empty: "missing_diagnostics w fs = [] \<longleftrightarrow> missing_files w fs = []"
  by (induction fs) (simp_all add: missing_Cons NL_def)

text \<open>
  C2: for every \<open>Operation\<close> whose resolved \<open>existFiles\<close> holds at least one path that is
  missing from the current (the student's) directory, \<open>do\<close> records the diagnostic for
  a missing file for each missing file, in the order of the list, and returns with these
  diagnostics at once: the only change to the world is what was printed, so no command
  was handed to the compiler toolchain and no temporary directory was made.
\<close>

theorem do_missing_files:
  assumes "existFiles opr = Some fs" and "missing_files w fs \<noteq> []"
  shows "\<exists>w'. do e opr w =
            (Inr (err opr @ missing_diagnostics w fs @ NL),
             opr\<lparr>hasErrors := True, err := err opr @ missing_diagnostics w fs\<rparr>, w') \<and>
          invoked w' = invoked w \<and> tmpdirs w' = tmpdirs w \<and> tmp_next w' = tmp_next w \<and>
          cwd w' = cwd w \<and> files w' = files w"
  using assms by (simp add: do_def checkExistence_eq)

section \<open>The interface check\<close>

lemma ref_file_frame [simp]: "ref_file (opr\<lparr>hasErrors := h, err := x\<rparr>) s = ref_file opr s"
  by (simp add: ref_file_def)

lemma interface_frame [simp]:
  "has_reference e (opr\<lparr>hasErrors := h, err := x\<rparr>) w = has_reference e opr w"
  "compare_result e (opr\<lparr>hasErrors := h, err := x\<rparr>) w = compare_result e opr w"
  by (rule ext, simp add: has_reference_def compare_result_def split: option.splits)+

lemma interface_frame_list [simp]:
  "mismatching e (opr\<lparr>hasErrors := h, err := x\<rparr>) w fs = mismatching e opr w fs"
  "interface_diagnostics e (opr\<lparr>hasErrors := h, err := x\<rparr>) w fs = interface_diagnostics e opr w fs"
  "interface_report e (opr\<lparr>hasErrors := h, err := x\<rparr>) w fs = interface_report e opr w fs"
  by (simp_all add: mismatching_def interface_diagnostics_def interface_report_def)

lemma interface_Nil [simp]:
  "mismatching e opr w [] = []" "interface_diagnostics e opr w [] = []"
  "interface_report e opr w [] = []"
  by (simp_all add: mismatching_def interface_diagnostics_def interface_report_def)

lemma interface_Cons:
  "mismatching e opr w (f # fs) =
     (if has_reference e opr w f \<and> compare_result e opr w f \<noteq> [] then f # mismatching e opr w fs
      else mismatching e opr w fs)"
  "interface_diagnostics e opr w (f # fs) =
     (if has_reference e opr w f \<and> compare_result e opr w f \<noteq> []
      then getOpError f ERR_BADINTERF @ NL @ compare_result e opr w f @ NL @ interface_diagnostics e opr w fs
      else interface_diagnostics e opr w fs)"
  "interface_report e opr w (f # fs) =
     (if has_reference e opr w f
      then (if compare_result e opr w f \<noteq> [] then getOpError f ERR_BADINTERF @ NL
            else f @ '': interface matches reference, good'') @ interface_report e opr w fs
      else interface_report e opr w fs)"
  by (simp_all add: mismatching_def interface_diagnostics_def interface_report_def)

lemma accepted_simps [simp]:
  "accepted e [] = []"
  "accepted e (f # fs) = (if with_suffix_empty e f = None then [] else f # accepted e fs)"
  by (simp_all add: accepted_def)

lemma accepted_all: "\<forall>f\<in>set fs. with_suffix_empty e f \<noteq> None \<Longrightarrow> accepted e fs = fs"
  by (simp add: accepted_def)

lemma accepted_eq: "(accepted e fs = fs) = (\<forall>f\<in>set fs. with_suffix_empty e f \<noteq> None)"
  by (induction fs) simp_all

lemma checkInterface_loop_acc:
  "checkInterface_loop e fs (toPrint, opr, w) =
     ((if accepted e fs = fs
       then Inr (toPrint @ interface_report e opr w fs) else Inl ValueError),
      opr\<lparr>hasErrors := hasErrors opr \<or> mismatching e opr w (accepted e fs) \<noteq> [],
          err := err opr @ interface_diagnostics e opr w (accepted e fs)\<rparr>,
      w)"
proof (induction fs arbitrary: toPrint opr)
  case Nil
  then show ?case by simp
next
  case (Cons f fs)
  show ?case
  proof (cases "with_suffix_empty e f")
    case None
    then show ?thesis by simp
  next
    case (Some s)
    have hr: "os_path_exists w (format_str (refFilePath opr) @ CHR ''/'' # s @ ''_ref.sv'') =
        has_reference e opr w f"
      by (simp add: has_reference_def Some ref_file_def)
    have cr: "sv_checkInterface e (cwd w) (format_str (refFilePath opr) @ CHR ''/'' # s @ ''_ref.sv'')
          (CHR ''.'' # CHR ''/'' # f) (specificModules opr) = compare_result e opr w f"
      by (simp add: compare_result_def Some ref_file_def)
    show ?thesis
    proof (cases "has_reference e opr w f")
      case False
      then show ?thesis
        by (simp add: Some Cons.IH interface_Cons hr Let_def)
    next
      case True
      show ?thesis
      proof (cases "compare_result e opr w f = []")
        case e: True
        then show ?thesis
          by (simp add: Some Cons.IH interface_Cons hr cr True Let_def)
      next
        case ne: False
        then show ?thesis
          by (simp add: Some Cons.IH interface_Cons hr cr True Let_def)
      qed
    qed
  qed
qed

lemma checkInterface_loop_eq:
  "checkInterface_loop e fs (toPrint, opr, w) =
     ((if \<forall>f\<in>set fs. with_suffix_empty e f \<noteq> None
       then Inr (toPrint @ interface_report e opr w fs) else Inl ValueError),
      opr\<lparr>hasErrors := hasErrors opr \<or> mismatching e opr w (accepted e fs) \<noteq> [],
          err := err opr @ interface_diagnostics e opr w (accepted e fs)\<rparr>,
      w)"
  unfolding checkInterface_loop_acc accepted_eq ..

lemma interface_no_reference:
  assumes "\<forall>f\<in>set fs. \<not> has_reference e opr w f"
  shows "mismatching e opr w fs = []" "interface_diagnostics e opr w fs = []"
        "interface_report e opr w fs = []"
  using assms by (induction fs) (simp_all add: interface_Cons)

lemma checkInterface_eq:
  assumes "number opr = Some n" and "0 \<le> n" and "existFiles opr = Some fs"
  shows "checkInterface e opr w =
     ((if \<forall>f\<in>set fs. with_suffix_empty e f \<noteq> None then Inr () else Inl ValueError),
      opr\<lparr>hasErrors := hasErrors opr \<or> mismatching e opr w (accepted e fs) \<noteq> [],
          err := err opr @ interface_diagnostics e opr w (accepted e fs)\<rparr>,
      if (\<forall>f\<in>set fs. with_suffix_empty e f \<noteq> None) \<and> interface_report e opr w fs \<noteq> [] \<and>
         \<not> silent opr
      then print (str_strip e (interface_report e opr w fs)) w else w)"
proof (cases "\<forall>f\<in>set fs. with_suffix_empty e f \<noteq> None")
  case True
  have "checkInterface_loop e fs ([], opr, w) =
      (Inr (interface_report e opr w fs),
       opr\<lparr>hasErrors := hasErrors opr \<or> mismatching e opr w (accepted e fs) \<noteq> [],
           err := err opr @ interface_diagnostics e opr w (accepted e fs)\<rparr>, w)"
    unfolding checkInterface_loop_eq using True by simp
  with assms True show ?thesis
    unfolding checkInterface_def by simp
next
  case False
  have "checkInterface_loop e fs ([], opr, w) =
      (Inl ValueError,
       opr\<lparr>hasErrors := hasErrors opr \<or> mismatching e opr w (accepted e fs) \<noteq> [],
           err := err opr @ interface_diagnostics e opr w (accepted e fs)\<rparr>, w)"
    unfolding checkInterface_loop_eq using False by simp
  with assms False show ?thesis
    unfolding checkInterface_def by simp
qed

lemma accepted_subset: "set (accepted e fs) \<subseteq> set fs"
  unfolding accepted_def by (auto dest: set_takeWhileD)

text \<open>
  C4, amended: during the interface check of a problem with a number that is not
  negative, the files of \<open>existFiles\<close> are gone through in the order of the list, up to
  the first entry whose name \<^verbatim>\<open>pathlib\<close> rejects, where \<^verbatim>\<open>ValueError\<close> is raised (through
  all of them when there is no such entry). Every one of these files that has a
  reference artifact is compared. Each non-empty answer of the comparator sets
  \<open>hasErrors\<close> and adds the diagnostic for that file with the comparator's detail, and the
  loop goes on with the remaining files: it does not stop at the first mismatching file,
  and the report, printed when the loop got through the list, covers every compared
  file. Files of \<open>existFiles\<close> with no reference artifact are skipped silently and cause no
  error.
\<close>

theorem checkInterface_compares_every_file:
  assumes "number opr = Some n" and "0 \<le> n" and "existFiles opr = Some fs"
  shows "checkInterface e opr w =
     ((if \<forall>f\<in>set fs. with_suffix_empty e f \<noteq> None then Inr () else Inl ValueError),
      opr\<lparr>hasErrors := hasErrors opr \<or> mismatching e opr w (accepted e fs) \<noteq> [],
          err := err opr @ interface_diagnostics e opr w (accepted e fs)\<rparr>,
      if (\<forall>f\<in>set fs. with_suffix_empty e f \<noteq> None) \<and> interface_report e opr w fs \<noteq> [] \<and>
         \<not> silent opr
      then print (str_strip e (interface_report e opr w fs)) w else w) \<and>
     ((\<forall>f\<in>set fs. \<not> has_reference e opr w f) \<longrightarrow>
        snd (checkInterface e opr w) = (opr, w))"
proof (rule conjI)
  show "checkInterface e opr w =
     ((if \<forall>f\<in>set fs. with_suffix_empty e f \<noteq> None then Inr () else Inl ValueError),
      opr\<lparr>hasErrors := hasErrors opr \<or> mismatching e opr w (accepted e fs) \<noteq> [],
          err := err opr @ interface_diagnostics e opr w (accepted e fs)\<rparr>,
      if (\<forall>f\<in>set fs. with_suffix_empty e f \<noteq> None) \<and> interface_report e opr w fs \<noteq> [] \<and>
         \<not> silent opr
      then print (str_strip e (interface_report e opr w fs)) w else w)"
    by (rule checkInterface_eq [OF assms])
next
  show "(\<forall>f\<in>set fs. \<not> has_reference e opr w f) \<longrightarrow> snd (checkInterface e opr w) = (opr, w)"
  proof
    assume n: "\<forall>f\<in>set fs. \<not> has_reference e opr w f"
    with accepted_subset [of e fs] have "\<forall>f\<in>set (accepted e fs). \<not> has_reference e opr w f"
      by blast
    then have a: "mismatching e opr w (accepted e fs) = []"
      "interface_diagnostics e opr w (accepted e fs) = []"
      by (simp_all add: interface_no_reference)
    from n have r: "interface_report e opr w fs = []"
      by (simp add: interface_no_reference)
    show "snd (checkInterface e opr w) = (opr, w)"
      unfolding checkInterface_eq [OF assms] a r by simp
  qed
qed

lemma iface_suffix:
  "drop_last_suffix ''a.sv'' = Some ''a''" "drop_last_suffix ''b.sv'' = Some ''b''"
  "drop_last_suffix ''c.sv'' = Some ''c''" "drop_last_suffix ''d.sv'' = Some ''d''"
  by (simp_all add: drop_last_suffix_def)

lemma iface_has_reference:
  "has_reference iface_env iface_op iface_world ''a.sv''"
  "has_reference iface_env iface_op iface_world ''b.sv''"
  "has_reference iface_env iface_op iface_world ''c.sv''"
  "\<not> has_reference iface_env iface_op iface_world ''d.sv''"
  by (simp_all add: has_reference_def iface_env_def iface_op_def iface_world_def iface_suffix
      ref_file_def format_str_def os_path_exists_def resolve_path_def norm_join_def
      os_path_isabs_def Operation_def)

lemma iface_compare_result:
  "compare_result iface_env iface_op iface_world ''a.sv'' = ''port mismatch''"
  "compare_result iface_env iface_op iface_world ''b.sv'' = []"
  "compare_result iface_env iface_op iface_world ''c.sv'' = ''missing module''"
  by (simp_all add: compare_result_def iface_env_def iface_suffix)

text \<open>
  C4, as the specification states it: the stage fails on the first mismatching file and
  evaluates and reports matches only for the files before it. The loop of the code has
  no \<^verbatim>\<open>break\<close>. With \<^verbatim>\<open>a.sv\<close> mismatching, \<^verbatim>\<open>b.sv\<close> matching and \<^verbatim>\<open>c.sv\<close> mismatching,
  the diagnostics hold the comparator's answer for \<^verbatim>\<open>c.sv\<close> as well, and the report
  holds the match of \<^verbatim>\<open>b.sv\<close>, both processed after the failing \<^verbatim>\<open>a.sv\<close>.
\<close>

theorem checkInterface_continues_after_mismatch:
  "checkInterface iface_env iface_op iface_world =
     (Inr (),
      iface_op\<lparr>hasErrors := True,
               err := getOpError ''a.sv'' ERR_BADINTERF @ NL @ ''port mismatch'' @ NL @
                      getOpError ''c.sv'' ERR_BADINTERF @ NL @ ''missing module'' @ NL\<rparr>,
      iface_world\<lparr>stdout := [getOpError ''a.sv'' ERR_BADINTERF @ NL @
                               ''b.sv: interface matches reference, good'' @
                               getOpError ''c.sv'' ERR_BADINTERF]\<rparr>)"
proof -
  have n: "number iface_op = Some 2" "existFiles iface_op = Some [''a.sv'', ''b.sv'', ''c.sv'', ''d.sv'']"
    "\<not> silent iface_op" "err iface_op = []" "\<not> hasErrors iface_op"
    by (simp_all add: iface_op_def Operation_def)
  have s: "\<forall>f\<in>set [''a.sv'', ''b.sv'', ''c.sv'', ''d.sv'']. with_suffix_empty iface_env f \<noteq> None"
    by (simp add: iface_env_def iface_suffix)
  have d: "interface_diagnostics iface_env iface_op iface_world [''a.sv'', ''b.sv'', ''c.sv'', ''d.sv''] =
      getOpError ''a.sv'' ERR_BADINTERF @ NL @ ''port mismatch'' @ NL @
      getOpError ''c.sv'' ERR_BADINTERF @ NL @ ''missing module'' @ NL"
    by (simp add: interface_Cons iface_has_reference iface_compare_result)
  have m: "mismatching iface_env iface_op iface_world [''a.sv'', ''b.sv'', ''c.sv'', ''d.sv''] = [''a.sv'', ''c.sv'']"
    by (simp add: interface_Cons iface_has_reference iface_compare_result)
  have r: "interface_report iface_env iface_op iface_world [''a.sv'', ''b.sv'', ''c.sv'', ''d.sv''] =
      getOpError ''a.sv'' ERR_BADINTERF @ NL @ ''b.sv: interface matches reference, good'' @
      getOpError ''c.sv'' ERR_BADINTERF @ NL"
    by (simp add: interface_Cons iface_has_reference iface_compare_result)
  have p: "str_strip iface_env
             (interface_report iface_env iface_op iface_world [''a.sv'', ''b.sv'', ''c.sv'', ''d.sv'']) =
      getOpError ''a.sv'' ERR_BADINTERF @ NL @ ''b.sv: interface matches reference, good'' @
      getOpError ''c.sv'' ERR_BADINTERF"
    unfolding r
    by (simp add: iface_env_def ascii_strip_def getOpError_def NL_def ESC_def bcolors_FAIL_def
        bcolors_ENDC_def ERR_BADINTERF_def ERR_NOEXIST_def ERR_NOCOMPILE_def ERR_FAILTEST_def
        is_space_def)
  have rn: "interface_report iface_env iface_op iface_world [''a.sv'', ''b.sv'', ''c.sv'', ''d.sv''] \<noteq> []"
    unfolding r by (simp add: NL_def)
  have "checkInterface iface_env iface_op iface_world =
      (Inr (),
       iface_op\<lparr>hasErrors := True,
                err := getOpError ''a.sv'' ERR_BADINTERF @ NL @ ''port mismatch'' @ NL @
                       getOpError ''c.sv'' ERR_BADINTERF @ NL @ ''missing module'' @ NL\<rparr>,
       print (getOpError ''a.sv'' ERR_BADINTERF @ NL @ ''b.sv: interface matches reference, good'' @
              getOpError ''c.sv'' ERR_BADINTERF) iface_world)"
    by (simp add: checkInterface_eq [OF n(1) _ n(2)] accepted_all [OF s] s n d m p rn)
  then show ?thesis
    by (simp add: print_def iface_world_def)
qed

lemma iface_op2_frame:
  "has_reference iface_env iface_op2 = has_reference iface_env iface_op"
  "compare_result iface_env iface_op2 = compare_result iface_env iface_op"
  by (rule ext, rule ext, simp add: has_reference_def compare_result_def iface_op2_def ref_file_def
      split: option.splits)+

theorem checkInterface_compares_every_file_witness:
  "checkInterface iface_env iface_op2 iface_world =
     (Inr (),
      iface_op2\<lparr>hasErrors := True,
                err := getOpError ''c.sv'' ERR_BADINTERF @ NL @ ''missing module'' @ NL\<rparr>,
      iface_world) \<and>
   checkInterface iface_env iface_op3 iface_world = (Inl ValueError, iface_op3, iface_world)"
proof
  have n: "number iface_op2 = Some 2" "(0::int) \<le> 2" "existFiles iface_op2 = Some [''d.sv'', ''c.sv'']"
    "silent iface_op2" "err iface_op2 = []" "\<not> hasErrors iface_op2"
    by (simp_all add: iface_op2_def iface_op_def Operation_def)
  have s: "\<forall>f\<in>set [''d.sv'', ''c.sv'']. with_suffix_empty iface_env f \<noteq> None"
    by (simp add: iface_env_def iface_suffix)
  have d: "interface_diagnostics iface_env iface_op2 iface_world [''d.sv'', ''c.sv''] =
      getOpError ''c.sv'' ERR_BADINTERF @ NL @ ''missing module'' @ NL"
    by (simp add: interface_Cons iface_op2_frame iface_has_reference iface_compare_result)
  have m: "mismatching iface_env iface_op2 iface_world [''d.sv'', ''c.sv''] = [''c.sv'']"
    by (simp add: interface_Cons iface_op2_frame iface_has_reference iface_compare_result)
  from checkInterface_compares_every_file [OF n(1) n(2) n(3), of iface_env iface_world]
  show "checkInterface iface_env iface_op2 iface_world =
     (Inr (),
      iface_op2\<lparr>hasErrors := True,
                err := getOpError ''c.sv'' ERR_BADINTERF @ NL @ ''missing module'' @ NL\<rparr>,
      iface_world)"
    by (simp add: n d m s accepted_all [OF s])
next
  have n: "number iface_op3 = Some 2" "(0::int) \<le> 2" "existFiles iface_op3 = Some [[], ''a.sv'']"
    "err iface_op3 = []" "\<not> hasErrors iface_op3"
    by (simp_all add: iface_op3_def iface_op_def Operation_def)
  have s: "with_suffix_empty iface_env [] = None"
    by (simp add: iface_env_def drop_last_suffix_def)
  from checkInterface_compares_every_file [OF n(1) n(2) n(3), of iface_env iface_world]
  show "checkInterface iface_env iface_op3 iface_world = (Inl ValueError, iface_op3, iface_world)"
    by (simp add: n s)
qed

text \<open>
  C8: for every problem with a number below zero the interface check is skipped
  entirely: \<open>checkInterface\<close> returns at once, records no diagnostics and leaves
  \<open>hasErrors\<close> and the world as they are, whatever reference artifacts exist and whatever
  the comparator would answer; \<open>do\<close> then goes on to the compilation stage.
\<close>

theorem checkInterface_skipped_for_labs:
  assumes "number opr = Some n" and "n < 0"
  shows "checkInterface e opr w = (Inr (), opr, w) \<and>
         (\<not> hasErrors opr \<longrightarrow> do_from_interface e opr w = do_from_compile e opr w)"
  using assms by (simp add: checkInterface_def do_from_interface_def)

theorem checkInterface_skipped_for_labs_witness:
  "has_reference iface_env lab_op iface_world ''a.sv'' \<and>
   compare_result iface_env lab_op iface_world ''a.sv'' = ''port mismatch'' \<and>
   checkInterface iface_env lab_op iface_world = (Inr (), lab_op, iface_world)"
proof -
  have n: "number lab_op = Some (- 1)" "(- 1 :: int) < 0"
    by (simp_all add: lab_op_def)
  have "has_reference iface_env lab_op = has_reference iface_env iface_op"
       "compare_result iface_env lab_op = compare_result iface_env iface_op"
    by (rule ext, rule ext, simp add: has_reference_def compare_result_def lab_op_def ref_file_def
        split: option.splits)+
  with checkInterface_skipped_for_labs [OF n, of iface_env iface_world] show ?thesis
    by (simp add: iface_has_reference iface_compare_result)
qed

theorem do_missing_files_witness:
  "missing_files empty_home [''a.sv''] = [''a.sv''] \<and>
   (\<exists>w'. do iface_env scenario_a empty_home =
            (Inr (getOpError ''a.sv'' ERR_NOEXIST @ NL @ NL),
             scenario_a\<lparr>hasErrors := True, err := getOpError ''a.sv'' ERR_NOEXIST @ NL\<rparr>, w') \<and>
          invoked w' = [])"
proof -
  have e: "existFiles scenario_a = Some [''a.sv'']" "err scenario_a = []"
    by (simp_all add: scenario_a_def Operation_def)
  have m: "missing_files empty_home [''a.sv''] = [''a.sv'']"
    by (simp add: missing_files_def os_path_exists_def empty_home_def)
  then have n: "missing_files empty_home [''a.sv''] \<noteq> []" by simp
  have d: "missing_diagnostics empty_home [''a.sv''] = getOpError ''a.sv'' ERR_NOEXIST @ NL"
    by (simp add: missing_diagnostics_def m)
  have i: "invoked empty_home = []" by (simp add: empty_home_def)
  from do_missing_files [OF e(1) n, of iface_env] m show ?thesis
    by (auto simp add: e d i)
qed

section \<open>The compilation check\<close>

lemma compilationErrHandler_eq:
  "compilationErrHandler e fileList oldDir out opr w =
     ((case decode_utf8 e out of None \<Rightarrow> Inl UnicodeDecodeError | Some t \<Rightarrow> Inr ()),
      opr\<lparr>hasErrors := True, err := err opr @ compile_diagnostic e fileList oldDir out\<rparr>,
      w\<lparr>stdout := stdout w @
           (if silent opr then []
            else [str_strip e (compile_diagnostic_head fileList oldDir)])\<rparr>)"
  by (simp add: compilationErrHandler_def compile_diagnostic_def compile_diagnostic_head_def
      print_def Let_def split: option.splits)

lemma failure_lines_frame [simp]:
  "failure_lines e (opr\<lparr>hasErrors := h, err := x\<rparr>) fl od rs = failure_lines e opr fl od rs"
  by (simp add: failure_lines_def)

lemma compile_diagnostics_simps [simp]:
  "compile_diagnostics e fl od [] = []"
  "compile_diagnostics e fl od (Exit0 out # rs) = compile_diagnostics e fl od rs"
  "compile_diagnostics e fl od (Raised x # rs) = compile_diagnostics e fl od rs"
  "compile_diagnostics e fl od (CalledProcessError out # rs) =
     compile_diagnostic e fl od out @ compile_diagnostics e fl od rs"
  by (simp_all add: compile_diagnostics_def)

lemma failure_lines_simps [simp]:
  "failure_lines e opr fl od [] = []"
  "failure_lines e opr fl od (Exit0 out # rs) = failure_lines e opr fl od rs"
  "failure_lines e opr fl od (Raised x # rs) = failure_lines e opr fl od rs"
  "failure_lines e opr fl od (CalledProcessError out # rs) =
     (if silent opr then []
      else [str_strip e (compile_diagnostic_head fl od)]) @
     failure_lines e opr fl od rs"
  by (simp_all add: failure_lines_def)

lemma raises_simps [simp]:
  "raises e (Exit0 out) = None"
  "raises e (Raised x) = Some x"
  "raises e (CalledProcessError out) =
     (case decode_utf8 e out of None \<Rightarrow> Some UnicodeDecodeError | Some t \<Rightarrow> None)"
  by (simp_all add: raises_def)

lemma compile_modules_loop_eq:
  "compile_modules_loop e fl od ms (opr, w) =
     (outcome e (module_results e (cwd w) (invoked w) ms),
      opr\<lparr>hasErrors := hasErrors opr \<or> failed_outputs (module_results e (cwd w) (invoked w) ms) \<noteq> [],
          err := err opr @ compile_diagnostics e fl od (module_results e (cwd w) (invoked w) ms)\<rparr>,
      w\<lparr>invoked := invoked w @
                      map vcsModuleCmd (take (length (module_results e (cwd w) (invoked w) ms)) ms),
        stdout := stdout w @ failure_lines e opr fl od (module_results e (cwd w) (invoked w) ms)\<rparr>)"
proof (induction ms arbitrary: opr w)
  case Nil
  then show ?case by simp
next
  case (Cons m ms)
  show ?case
  proof (cases "check_output e (cwd w) (invoked w) (vcsModuleCmd m)")
    case (Exit0 out)
    then show ?thesis by (simp add: sp_check_output_def Cons.IH)
  next
    case (CalledProcessError out)
    show ?thesis
    proof (cases "decode_utf8 e out")
      case None
      with CalledProcessError show ?thesis
        by (simp add: sp_check_output_def compilationErrHandler_eq)
    next
      case (Some t)
      with CalledProcessError show ?thesis
        by (simp add: sp_check_output_def Cons.IH compilationErrHandler_eq)
    qed
  next
    case (Raised x)
    then show ?thesis by (simp add: sp_check_output_def)
  qed
qed

lemma compile_try_eq:
  "compile_try e fl od opr w =
     (outcome e (try_calls e (cwd w) (invoked w) fl (specificModules opr)),
      opr\<lparr>hasErrors := hasErrors opr \<or>
                        failed_outputs (try_calls e (cwd w) (invoked w) fl (specificModules opr)) \<noteq> [],
          err := err opr @
                 compile_diagnostics e fl od (try_calls e (cwd w) (invoked w) fl (specificModules opr))\<rparr>,
      w\<lparr>invoked := invoked w @
                      try_cmds fl (specificModules opr)
                        (try_calls e (cwd w) (invoked w) fl (specificModules opr)),
        stdout := stdout w @
                  failure_lines e opr fl od (try_calls e (cwd w) (invoked w) fl (specificModules opr)) @
                  good_line e opr fl od (try_calls e (cwd w) (invoked w) fl (specificModules opr))\<rparr>)"
proof (cases "specificModules opr")
  case None
  show ?thesis
  proof (cases "check_output e (cwd w) (invoked w) (vcsCmd fl)")
    case (Exit0 out)
    then show ?thesis
      by (simp add: compile_try_def None try_calls_def try_cmds_def sp_check_output_def
          good_line_def print_def)
  next
    case (CalledProcessError out)
    then show ?thesis
      by (cases "decode_utf8 e out")
         (simp_all add: compile_try_def None try_calls_def try_cmds_def sp_check_output_def
            compilationErrHandler_eq good_line_def)
  next
    case (Raised x)
    then show ?thesis
      by (simp add: compile_try_def None try_calls_def try_cmds_def sp_check_output_def
          good_line_def)
  qed
next
  case (Some ms)
  show ?thesis
  proof (cases "check_output e (cwd w) (invoked w) (vloganCmd fl)")
    case (Exit0 out)
    show ?thesis
      by (cases "outcome e (module_results e (cwd w) (invoked w @ [vloganCmd fl]) ms)")
         (simp_all add: compile_try_def Some Exit0 try_calls_def try_cmds_def sp_check_output_def
            compile_modules_loop_eq good_line_def print_def)
  next
    case (CalledProcessError out)
    then show ?thesis
      by (cases "decode_utf8 e out")
         (simp_all add: compile_try_def Some try_calls_def try_cmds_def sp_check_output_def
            compilationErrHandler_eq good_line_def)
  next
    case (Raised x)
    then show ?thesis
      by (simp add: compile_try_def Some try_calls_def try_cmds_def sp_check_output_def
            good_line_def)
  qed
qed

lemma checkCompilation_eq:
  assumes "compileFiles opr = Some cfs"
  shows "checkCompilation e opr w =
     (outcome e (try_calls e (build_dir w) (invoked w) (compile_fileList w cfs) (specificModules opr)),
      opr\<lparr>hasErrors := hasErrors opr \<or>
            failed_outputs (try_calls e (build_dir w) (invoked w) (compile_fileList w cfs)
                              (specificModules opr)) \<noteq> [],
          err := err opr @
            compile_diagnostics e (compile_fileList w cfs) (cwd w)
              (try_calls e (build_dir w) (invoked w) (compile_fileList w cfs) (specificModules opr))\<rparr>,
      w\<lparr>cwd := realpath w (build_dir w) (cwd w),
        tmpdirs := removeAll (temp_name w) (tmpdirs w),
        tmp_next := Suc (tmp_next w),
        invoked := invoked w @
          try_cmds (compile_fileList w cfs) (specificModules opr)
            (try_calls e (build_dir w) (invoked w) (compile_fileList w cfs) (specificModules opr)),
        stdout := stdout w @
          failure_lines e opr (compile_fileList w cfs) (cwd w)
            (try_calls e (build_dir w) (invoked w) (compile_fileList w cfs) (specificModules opr)) @
          good_line e opr (compile_fileList w cfs) (cwd w)
            (try_calls e (build_dir w) (invoked w) (compile_fileList w cfs) (specificModules opr))\<rparr>)"
  using assms
  by (simp add: checkCompilation_def compile_try_eq mkdtemp_def os_chdir_def rmtree_def
        resolve_path_def build_dir_def temp_name_def compile_fileList_def Let_def)


lemma module_results_raise:
  "r \<in> set (module_results e d hist ms) \<Longrightarrow> raises e r = Some x \<Longrightarrow>
   outcome e (module_results e d hist ms) = Inl x"
proof (induction ms arbitrary: hist)
  case Nil
  then show ?case by simp
next
  case (Cons m ms)
  show ?case
  proof (cases "raises e (check_output e d hist (vcsModuleCmd m))")
    case None
    with Cons.prems have "r \<in> set (module_results e d (hist @ [vcsModuleCmd m]) ms)"
      by auto
    with Cons.IH Cons.prems(2) None show ?thesis by simp
  next
    case (Some y)
    with Cons.prems show ?thesis by simp
  qed
qed

lemma try_calls_raise:
  assumes "r \<in> set (try_calls e d hist fl mods)" and "raises e r = Some x"
  shows "outcome e (try_calls e d hist fl mods) = Inl x"
proof (cases mods)
  case None
  with assms show ?thesis by (simp add: try_calls_def)
next
  case (Some ms)
  show ?thesis
  proof (cases "check_output e d hist (vloganCmd fl)")
    case (Exit0 out)
    with assms Some have "r \<in> set (module_results e d (hist @ [vloganCmd fl]) ms)"
      by (auto simp add: try_calls_def)
    then have "outcome e (module_results e d (hist @ [vloganCmd fl]) ms) = Inl x"
      using assms(2) by (rule module_results_raise)
    with Exit0 Some show ?thesis by (simp add: try_calls_def)
  next
    case (CalledProcessError out)
    with assms Some show ?thesis by (simp add: try_calls_def)
  next
    case (Raised y)
    with assms Some show ?thesis by (simp add: try_calls_def)
  qed
qed



lemma sample_world_fields:
  "cwd iface_world = ''/home/s1''" "invoked iface_world = []" "tmpdirs iface_world = []"
  by (simp_all add: iface_world_def)

lemma sample_canonical: "canonical iface_world (cwd iface_world)"
  by (simp add: canonical_def iface_world_def norm_join_def os_path_isabs_def)

lemma sample_vcsModuleCmd:
  "vcsModuleCmd ''alu'' \<noteq> vcsModuleCmd ''top''" "vcsModuleCmd ''alu'' \<noteq> vcsModuleCmd ''cpu''"
  "vcsModuleCmd ''cpu'' \<noteq> vcsModuleCmd ''top''"
  "vloganCmd fl \<noteq> vcsModuleCmd m" "vcsCmd fl \<noteq> vloganCmd fl'"
  by (simp_all add: vcsModuleCmd_def vloganCmd_def vcsCmd_def)

lemma sample_decode:
  "utf8_decode ''syntax error'' = Some ''syntax error''"
  "utf8_decode ''top: unresolved'' = Some ''top: unresolved''"
  "utf8_decode ''cpu: unresolved'' = Some ''cpu: unresolved''"
  "utf8_decode [CHR 0xFF, CHR 0xFE] = None"
  by (simp_all add: utf8_decode_def)



text \<open>
  C10: on every way out of \<open>checkCompilation\<close>, whether all commands succeeded, some
  failed, or one was cut short by an exception such as a user interrupt, the working
  directory is the one of before (named by a path that leads to it from everywhere, as
  every path is that \<^verbatim>\<open>os.getcwd\<close> returns) and the temporary directory the call made is
  gone, nothing else having been removed and no file changed. The result is \<open>outcome\<close>
  of the answers of the toolchain, the first exception among them: an interrupt of a
  command reaches the caller, after the cleanup. Without a list of files to compile the
  call raises \<^verbatim>\<open>TypeError\<close> before it makes a directory or leaves the current one.
\<close>

theorem checkCompilation_cleans_up:
  assumes "canonical w (cwd w)"
  shows "(compileFiles opr = None \<longrightarrow> checkCompilation e opr w = (Inl TypeError, opr, w)) \<and>
         (\<forall>cfs. compileFiles opr = Some cfs \<longrightarrow>
           (\<exists>opr' w'.
              checkCompilation e opr w =
                (outcome e (try_calls e (build_dir w) (invoked w) (compile_fileList w cfs)
                              (specificModules opr)),
                 opr', w') \<and>
              cwd w' = cwd w \<and>
              tmpdirs w' = removeAll (temp_name w) (tmpdirs w) \<and>
              temp_name w \<notin> set (tmpdirs w') \<and>
              files w' = files w \<and>
              (Raised KeyboardInterrupt \<in>
                 set (try_calls e (build_dir w) (invoked w) (compile_fileList w cfs)
                        (specificModules opr)) \<longrightarrow>
               fst (checkCompilation e opr w) = Inl KeyboardInterrupt)))"
proof (intro conjI allI impI)
  assume "compileFiles opr = None"
  then show "checkCompilation e opr w = (Inl TypeError, opr, w)"
    by (simp add: checkCompilation_def)
next
  fix cfs
  assume c: "compileFiles opr = Some cfs"
  from assms have r: "realpath w (build_dir w) (cwd w) = cwd w"
    by (simp add: canonical_def)
  have k: "Raised KeyboardInterrupt \<in>
             set (try_calls e (build_dir w) (invoked w) (compile_fileList w cfs)
                    (specificModules opr)) \<longrightarrow>
           fst (checkCompilation e opr w) = Inl KeyboardInterrupt"
  proof
    assume "Raised KeyboardInterrupt \<in>
             set (try_calls e (build_dir w) (invoked w) (compile_fileList w cfs)
                    (specificModules opr))"
    then have "outcome e (try_calls e (build_dir w) (invoked w) (compile_fileList w cfs)
                            (specificModules opr)) = Inl KeyboardInterrupt"
      by (rule try_calls_raise) simp
    then show "fst (checkCompilation e opr w) = Inl KeyboardInterrupt"
      by (simp add: checkCompilation_eq [OF c])
  qed
  have "\<exists>opr' w'.
              checkCompilation e opr w =
                (outcome e (try_calls e (build_dir w) (invoked w) (compile_fileList w cfs)
                              (specificModules opr)),
                 opr', w') \<and>
              cwd w' = cwd w \<and>
              tmpdirs w' = removeAll (temp_name w) (tmpdirs w) \<and>
              temp_name w \<notin> set (tmpdirs w') \<and>
              files w' = files w"
    by (simp add: checkCompilation_eq [OF c] r)
  with k show "\<exists>opr' w'.
              checkCompilation e opr w =
                (outcome e (try_calls e (build_dir w) (invoked w) (compile_fileList w cfs)
                              (specificModules opr)),
                 opr', w') \<and>
              cwd w' = cwd w \<and>
              tmpdirs w' = removeAll (temp_name w) (tmpdirs w) \<and>
              temp_name w \<notin> set (tmpdirs w') \<and>
              files w' = files w \<and>
              (Raised KeyboardInterrupt \<in>
                 set (try_calls e (build_dir w) (invoked w) (compile_fileList w cfs)
                        (specificModules opr)) \<longrightarrow>
               fst (checkCompilation e opr w) = Inl KeyboardInterrupt)"
    by blast
qed


theorem checkCompilation_cleans_up_witness:
  "canonical iface_world ''/home/s1'' \<and>
   (\<exists>opr' w'. checkCompilation ok_env whole_op iface_world = (Inr (), opr', w') \<and>
       cwd w' = ''/home/s1'' \<and> tmpdirs w' = []) \<and>
   (\<exists>opr' w'. checkCompilation iface_env whole_op iface_world = (Inr (), opr', w') \<and>
       cwd w' = ''/home/s1'' \<and> tmpdirs w' = []) \<and>
   (\<exists>opr' w'. checkCompilation intr_env whole_op iface_world = (Inl KeyboardInterrupt, opr', w') \<and>
       cwd w' = ''/home/s1'' \<and> tmpdirs w' = []) \<and>
   (\<exists>opr' w'. checkCompilation intr_env modules_op iface_world = (Inl KeyboardInterrupt, opr', w') \<and>
       cwd w' = ''/home/s1'' \<and> tmpdirs w' = []) \<and>
   (\<exists>opr' w'. checkCompilation garbled_env modules_op iface_world =
                 (Inl UnicodeDecodeError, opr', w') \<and>
       cwd w' = ''/home/s1'' \<and> tmpdirs w' = [])"
proof -
  have c: "compileFiles whole_op = Some [''top.sv'']" "specificModules whole_op = None"
    "compileFiles modules_op = Some [''top.sv'']"
    "specificModules modules_op = Some [''top'', ''alu'', ''cpu'']"
    by (simp_all add: whole_op_def modules_op_def Operation_def)
  have d: "decode_utf8 iface_env = utf8_decode" "decode_utf8 garbled_env = utf8_decode"
    by (simp_all add: iface_env_def garbled_env_def)
  have k: "canonical iface_world ''/home/s1''"
    using sample_canonical by (simp add: sample_world_fields)
  have o: "outcome ok_env (try_calls ok_env (build_dir iface_world) (invoked iface_world)
             (compile_fileList iface_world [''top.sv'']) None) = Inr ()"
    "outcome iface_env (try_calls iface_env (build_dir iface_world) (invoked iface_world)
             (compile_fileList iface_world [''top.sv'']) None) = Inr ()"
    "outcome intr_env (try_calls intr_env (build_dir iface_world) (invoked iface_world)
             (compile_fileList iface_world [''top.sv'']) None) = Inl KeyboardInterrupt"
    "outcome intr_env (try_calls intr_env (build_dir iface_world) (invoked iface_world)
             (compile_fileList iface_world [''top.sv'']) (Some [''top'', ''alu'', ''cpu''])) =
       Inl KeyboardInterrupt"
    "outcome garbled_env (try_calls garbled_env (build_dir iface_world) (invoked iface_world)
             (compile_fileList iface_world [''top.sv'']) (Some [''top'', ''alu'', ''cpu''])) =
       Inl UnicodeDecodeError"
    by (simp_all add: try_calls_def ok_env_def iface_env_def intr_env_def garbled_env_def
          sample_vcsModuleCmd sample_decode)
  note a = sample_canonical
  from checkCompilation_cleans_up [OF a, where opr = whole_op and e = ok_env,
         THEN conjunct2, rule_format, OF c(1)]
       checkCompilation_cleans_up [OF a, where opr = whole_op and e = iface_env,
         THEN conjunct2, rule_format, OF c(1)]
       checkCompilation_cleans_up [OF a, where opr = whole_op and e = intr_env,
         THEN conjunct2, rule_format, OF c(1)]
       checkCompilation_cleans_up [OF a, where opr = modules_op and e = intr_env,
         THEN conjunct2, rule_format, OF c(3)]
       checkCompilation_cleans_up [OF a, where opr = modules_op and e = garbled_env,
         THEN conjunct2, rule_format, OF c(3)]
  have "(\<exists>opr' w'. checkCompilation ok_env whole_op iface_world = (Inr (), opr', w') \<and>
       cwd w' = ''/home/s1'' \<and> tmpdirs w' = []) \<and>
   (\<exists>opr' w'. checkCompilation iface_env whole_op iface_world = (Inr (), opr', w') \<and>
       cwd w' = ''/home/s1'' \<and> tmpdirs w' = []) \<and>
   (\<exists>opr' w'. checkCompilation intr_env whole_op iface_world = (Inl KeyboardInterrupt, opr', w') \<and>
       cwd w' = ''/home/s1'' \<and> tmpdirs w' = []) \<and>
   (\<exists>opr' w'. checkCompilation intr_env modules_op iface_world = (Inl KeyboardInterrupt, opr', w') \<and>
       cwd w' = ''/home/s1'' \<and> tmpdirs w' = []) \<and>
   (\<exists>opr' w'. checkCompilation garbled_env modules_op iface_world =
                 (Inl UnicodeDecodeError, opr', w') \<and>
       cwd w' = ''/home/s1'' \<and> tmpdirs w' = [])"
    unfolding c o by (simp add: sample_world_fields) blast
  with k show ?thesis by simp
qed

end
